theory Spec2Isabelle
  imports Main "HOL-Library.Word" "HOL-Library.Monad_Syntax"
begin

section \<open>The hook provider of libs/ebpf\_ext/ebpf\_ext\_hook\_provider.c\<close>

text \<open>
  The file is modelled sequentially. Kernel objects that the code reaches through
  pointers live in a store keyed by address; \<open>NULL\<close> is address 0 and is never
  a key that can be read. A function of the source that reads or writes kernel state
  takes the state and returns \<open>Some\<close> of its result and the new state; \<open>None\<close>
  stands for an execution with no defined result (a read through \<open>NULL\<close> or
  through a pointer to no live object, a read past the end of a buffer).
\<close>

subsection \<open>Scalars\<close>

type_synonym byte = "8 word"
type_synonym addr = nat
type_synonym NTSTATUS = "32 word"

abbreviation NULL :: addr where
  "NULL \<equiv> 0"

text \<open>The status codes of ntstatus.h that the file names, and the macro \<open>NT_SUCCESS\<close>
  (a status is a success when it is not negative as a signed 32-bit value).\<close>

definition STATUS_SUCCESS :: NTSTATUS where
  "STATUS_SUCCESS = 0x00000000"

definition STATUS_PENDING :: NTSTATUS where
  "STATUS_PENDING = 0x00000103"

definition STATUS_INVALID_PARAMETER :: NTSTATUS where
  "STATUS_INVALID_PARAMETER = 0xC000000D"

definition STATUS_ACCESS_DENIED :: NTSTATUS where
  "STATUS_ACCESS_DENIED = 0xC0000022"

definition STATUS_INSUFFICIENT_RESOURCES :: NTSTATUS where
  "STATUS_INSUFFICIENT_RESOURCES = 0xC000009A"

definition NT_SUCCESS :: "NTSTATUS \<Rightarrow> bool" where
  "NT_SUCCESS status = (0 \<le> sint status)"

text \<open>\<open>ebpf_result_t\<close>: the two enumerators the file names, and one constructor for
  every other enumerator (a hook-specific attach callback may return any of them).\<close>

datatype ebpf_result = EBPF_SUCCESS | EBPF_ACCESS_DENIED | EBPF_OTHER_RESULT nat

subsection \<open>Records\<close>

text \<open>\<open>ebpf_extension_data_t\<close>: the attach parameter a client supplies. The field
  \<open>data\<close> is a pointer to the parameter bytes; \<open>None\<close> is the \<open>NULL\<close> pointer,
  \<open>Some bs\<close> a pointer to a buffer holding the bytes \<open>bs\<close>.\<close>

record ebpf_extension_data =
  data :: "byte list option"
  data_size :: nat

text \<open>\<open>EX_RUNDOWN_REF\<close> as a count of references in use and the flag that rundown is
  active, and the rundown object of a client.\<close>

record EX_RUNDOWN_REF =
  ref_count :: nat
  rundown_active :: bool

record ebpf_ext_hook_client_rundown =
  protection :: EX_RUNDOWN_REF
  rundown_occurred :: bool

text \<open>\<open>ebpf_extension_hook_client_t\<close>. The field \<open>link\<close> is not a field of the
  record: membership and position in a provider's list are held by the list itself
  (see \<open>attached_clients_list\<close>), and \<open>CONTAINING_RECORD\<close> of a link is the client
  at the same address (\<open>link\<close> is the first field). \<open>client_data\<close> is a pointer to an
  \<open>ebpf_extension_data_t\<close> owned by the client module (\<open>None\<close> is \<open>NULL\<close>).\<close>

record ebpf_extension_hook_client =
  nmr_binding_handle :: addr
  client_module_id :: nat
  client_binding_context :: addr
  client_data :: "ebpf_extension_data option"
  invoke_program :: addr
  provider_data :: addr
  provider_context :: addr
  detach_work_item :: addr
  rundown :: ebpf_ext_hook_client_rundown

text \<open>What a hook-specific attach callback does. Both structures are private to the
  file, so a callback reaches them through the functions the file exports. It is handed
  the client and the provider: it reads the client through the accessors and the
  custom data of the provider, it may call
  \<open>ebpf_extension_hook_check_attach_parameter\<close> on the provider and go on with the
  result, and it returns its result, having set the \<open>provider_data\<close> of the client
  with \<open>ebpf_extension_hook_client_set_provider_data\<close>. A callback is therefore a
  program over these calls: \<open>CallbackReturn\<close> with the result and the
  \<open>provider_data\<close> it leaves, or \<open>CallbackCheckAttachParameter\<close> with the
  arguments of the check (the parameter size, the parameter, the wildcard) and what the
  callback does with the result of the check.\<close>

datatype hook_callback =
    CallbackReturn ebpf_result addr
  | CallbackCheckAttachParameter nat "byte list" "byte list" "ebpf_result \<Rightarrow> hook_callback"

text \<open>\<open>ebpf_extension_hook_provider_t\<close>. The list \<open>attached_clients_list\<close> holds the
  addresses of the linked clients in \<open>Flink\<close> order from the list head, the sequence the
  \<open>LIST_ENTRY\<close> macros of the kernel headers maintain: \<open>IsListEmpty\<close> is \<open>= []\<close>,
  \<open>InsertTailList\<close> appends, \<open>RemoveEntryList\<close> takes the entry out. The attach
  callback is a program that depends on the client it is handed and on the custom data
  of the provider; the detach callback returns nothing, so it is the \<open>provider_data\<close>
  it leaves.\<close>

record ebpf_extension_hook_provider =
  nmr_provider_handle :: addr
  attach_callback :: "ebpf_extension_hook_client \<Rightarrow> addr \<Rightarrow> hook_callback"
  detach_callback :: "ebpf_extension_hook_client \<Rightarrow> addr"
  custom_data :: addr
  attached_clients_list :: "addr list"

text \<open>The calls that the ordering claims are about, in the order they happen.\<close>

datatype event =
    EvAcquireSpinLockShared addr
  | EvReleaseSpinLockShared addr
  | EvAcquireSpinLockExclusive addr
  | EvReleaseSpinLockExclusive addr
  | EvAllocatePool addr
  | EvFreePool addr
  | EvAllocateWorkItem addr
  | EvFreeWorkItem addr
  | EvInitializeRundownProtection addr
  | EvAttachCallback addr
  | EvDetachCallback addr
  | EvInsertTailList addr addr
  | EvRemoveEntryList addr
  | EvQueueWorkItem addr addr
  | EvWaitForRundownProtectionRelease addr
  | EvProviderDetachClientComplete addr

text \<open>The kernel state: the providers and the pool blocks holding clients, by address;
  the IO work items that are allocated; the queue of work items handed to the
  delayed work queue, each with its context; and the calls made so far.\<close>

record kstate =
  providers :: "addr \<rightharpoonup> ebpf_extension_hook_provider"
  pool :: "addr \<rightharpoonup> ebpf_extension_hook_client"
  work_items :: "addr set"
  work_queue :: "(addr \<times> addr) list"
  trace :: "event list"

definition deref_client :: "kstate \<Rightarrow> addr \<Rightarrow> ebpf_extension_hook_client option" where
  "deref_client s p = (if p = NULL then None else pool s p)"

definition deref_provider :: "kstate \<Rightarrow> addr \<Rightarrow> ebpf_extension_hook_provider option" where
  "deref_provider s p = (if p = NULL then None else providers s p)"

definition log_event :: "event \<Rightarrow> kstate \<Rightarrow> kstate" where
  "log_event e s = s\<lparr>trace := trace s @ [e]\<rparr>"

subsection \<open>memcmp\<close>

text \<open>\<open>memcmp(a, b, n)\<close> reads \<open>n\<close> bytes of each buffer and compares them as unsigned
  bytes; a buffer shorter than \<open>n\<close> is read past its end.\<close>

fun compare_bytes :: "byte list \<Rightarrow> byte list \<Rightarrow> int" where
  "compare_bytes (x # xs) (y # ys) =
     (if x = y then compare_bytes xs ys else if x < y then - 1 else 1)"
| "compare_bytes _ _ = 0"

definition memcmp :: "byte list \<Rightarrow> byte list \<Rightarrow> nat \<Rightarrow> int option" where
  "memcmp a b n =
     (if n \<le> length a \<and> n \<le> length b
      then Some (compare_bytes (take n a) (take n b)) else None)"

subsection \<open>ebpf\_extension\_hook\_check\_attach\_parameter\<close>

text \<open>The attach parameter the loop reads for an attached client (lines 244 to 246):
  the wildcard when the client's \<open>data\<close> pointer is \<open>NULL\<close>, its data otherwise.\<close>

definition next_client_attach_parameter ::
    "byte list \<Rightarrow> ebpf_extension_data \<Rightarrow> byte list" where
  "next_client_attach_parameter wild_card_attach_parameter next_client_data =
     (case data next_client_data of
        None \<Rightarrow> wild_card_attach_parameter
      | Some d \<Rightarrow> d)"

text \<open>The \<open>while\<close> loop of the exact branch over the links from \<open>Flink\<close> of the head
  back to the head; the second \<open>memcmp\<close> runs only when the first is not 0.\<close>

fun check_attached_clients ::
    "nat \<Rightarrow> byte list \<Rightarrow> byte list \<Rightarrow> (addr \<rightharpoonup> ebpf_extension_hook_client) \<Rightarrow>
     addr list \<Rightarrow> ebpf_result option" where
  "check_attached_clients n p w clients [] = Some EBPF_SUCCESS"
| "check_attached_clients n p w clients (link # rest) =
     (if link = NULL then None
      else do {
        next_client \<leftarrow> clients link;
        next_client_data \<leftarrow> client_data next_client;
        let np = next_client_attach_parameter w next_client_data;
        c1 \<leftarrow> memcmp w np n;
        if c1 = 0 then Some EBPF_ACCESS_DENIED
        else do {
          c2 \<leftarrow> memcmp p np n;
          if c2 = 0 then Some EBPF_ACCESS_DENIED
          else check_attached_clients n p w clients rest
        }
      })"

text \<open>The part of the function between taking and releasing the shared lock (lines 224
  to 259), as a function of what it reads: the list and the clients.\<close>

definition check_attach_parameter_locked ::
    "bool \<Rightarrow> nat \<Rightarrow> byte list \<Rightarrow> byte list \<Rightarrow> addr list \<Rightarrow>
     (addr \<rightharpoonup> ebpf_extension_hook_client) \<Rightarrow> ebpf_result option" where
  "check_attach_parameter_locked using_wild_card_attach_parameter attach_parameter_size
       attach_parameter wild_card_attach_parameter list clients =
     (if using_wild_card_attach_parameter
      then (if list \<noteq> [] then Some EBPF_ACCESS_DENIED else Some EBPF_SUCCESS)
      else check_attached_clients attach_parameter_size attach_parameter
             wild_card_attach_parameter clients list)"

definition ebpf_extension_hook_check_attach_parameter ::
    "nat \<Rightarrow> byte list \<Rightarrow> byte list \<Rightarrow> addr \<Rightarrow> kstate \<Rightarrow> (ebpf_result \<times> kstate) option" where
  "ebpf_extension_hook_check_attach_parameter attach_parameter_size attach_parameter
       wild_card_attach_parameter provider_ctx s =
     do {
       c \<leftarrow> memcmp attach_parameter wild_card_attach_parameter attach_parameter_size;
       let using_wild_card_attach_parameter = (c = 0);
       provider \<leftarrow> deref_provider s provider_ctx;
       let s1 = log_event (EvAcquireSpinLockShared provider_ctx) s;
       result \<leftarrow> check_attach_parameter_locked using_wild_card_attach_parameter
                  attach_parameter_size attach_parameter wild_card_attach_parameter
                  (attached_clients_list provider) (pool s1);
       Some (result, log_event (EvReleaseSpinLockShared provider_ctx) s1)
     }"

subsection \<open>Kernel services\<close>

text \<open>The pool and the IO work items. What the allocator answers is not decided by the
  file, so the answers are arguments: the block \<open>ExAllocatePoolUninitialized\<close> returns
  (\<open>NULL\<close> when it fails) with the contents the block happens to hold, and the work item
  \<open>IoAllocateWorkItem\<close> returns (\<open>NULL\<close> when it fails).\<close>

record kernel_answers =
  pool_block :: addr
  pool_block_contents :: ebpf_extension_hook_client
  io_work_item :: addr

definition ExAllocatePoolUninitialized ::
    "addr \<Rightarrow> ebpf_extension_hook_client \<Rightarrow> kstate \<Rightarrow> addr \<times> kstate" where
  "ExAllocatePoolUninitialized block contents s =
     (if block = NULL then (NULL, s)
      else (block, log_event (EvAllocatePool block) (s\<lparr>pool := (pool s)(block \<mapsto> contents)\<rparr>)))"

definition ExFreePool :: "addr \<Rightarrow> kstate \<Rightarrow> kstate" where
  "ExFreePool block s = log_event (EvFreePool block) (s\<lparr>pool := (pool s)(block := None)\<rparr>)"

definition IoAllocateWorkItem :: "addr \<Rightarrow> kstate \<Rightarrow> addr \<times> kstate" where
  "IoAllocateWorkItem item s =
     (if item = NULL then (NULL, s)
      else (item, log_event (EvAllocateWorkItem item) (s\<lparr>work_items := insert item (work_items s)\<rparr>)))"

definition IoFreeWorkItem :: "addr \<Rightarrow> kstate \<Rightarrow> kstate" where
  "IoFreeWorkItem item s =
     log_event (EvFreeWorkItem item) (s\<lparr>work_items := work_items s - {item}\<rparr>)"

definition IoQueueWorkItem :: "addr \<Rightarrow> addr \<Rightarrow> kstate \<Rightarrow> kstate" where
  "IoQueueWorkItem item ctx s =
     log_event (EvQueueWorkItem item ctx) (s\<lparr>work_queue := work_queue s @ [(item, ctx)]\<rparr>)"

text \<open>A write through a pointer to a client.\<close>

definition update_client ::
    "addr \<Rightarrow> (ebpf_extension_hook_client \<Rightarrow> ebpf_extension_hook_client) \<Rightarrow> kstate \<Rightarrow>
     kstate option" where
  "update_client p f s =
     do { c \<leftarrow> deref_client s p; Some (s\<lparr>pool := (pool s)(p \<mapsto> f c)\<rparr>) }"

definition update_provider ::
    "addr \<Rightarrow> (ebpf_extension_hook_provider \<Rightarrow> ebpf_extension_hook_provider) \<Rightarrow> kstate \<Rightarrow>
     kstate option" where
  "update_provider p f s =
     do { c \<leftarrow> deref_provider s p; Some (s\<lparr>providers := (providers s)(p \<mapsto> f c)\<rparr>) }"

text \<open>The list macros on the list of the provider at \<open>provider_ctx\<close>. \<open>RemoveEntryList\<close>
  rewires the neighbours of the entry, so an entry that is in no list has no defined
  result.\<close>

definition InsertTailList :: "addr \<Rightarrow> addr \<Rightarrow> kstate \<Rightarrow> kstate option" where
  "InsertTailList provider_ctx entry s =
     update_provider provider_ctx
       (\<lambda>p. p\<lparr>attached_clients_list := attached_clients_list p @ [entry]\<rparr>)
       (log_event (EvInsertTailList provider_ctx entry) s)"

definition RemoveEntryList :: "addr \<Rightarrow> addr \<Rightarrow> kstate \<Rightarrow> kstate option" where
  "RemoveEntryList provider_ctx entry s =
     do {
       p \<leftarrow> deref_provider s provider_ctx;
       if entry \<in> set (attached_clients_list p)
       then update_provider provider_ctx
              (\<lambda>p. p\<lparr>attached_clients_list := remove1 entry (attached_clients_list p)\<rparr>)
              (log_event (EvRemoveEntryList entry) s)
       else None
     }"

subsection \<open>Rundown protection\<close>

text \<open>Modelled from the spec: the kernel's rundown protection (\<open>ExInitializeRundownProtection\<close>,
  \<open>ExAcquireRundownProtection\<close>, \<open>ExReleaseRundownProtection\<close>,
  \<open>ExWaitForRundownProtectionRelease\<close>) is not code of the repository. Section 4.1 of the
  spec gives its contract: acquiring succeeds and increments the live count iff draining
  has not started; releasing decrements the live count; the wait flips the flag, then
  blocks the caller until the live count reaches zero. The wait is therefore two steps,
  the flip and the return, and the return has a result only at count zero.\<close>

definition ExInitializeRundownProtection :: EX_RUNDOWN_REF where
  "ExInitializeRundownProtection = \<lparr>ref_count = 0, rundown_active = False\<rparr>"

definition ExAcquireRundownProtection :: "EX_RUNDOWN_REF \<Rightarrow> bool \<times> EX_RUNDOWN_REF" where
  "ExAcquireRundownProtection r =
     (if rundown_active r then (False, r) else (True, r\<lparr>ref_count := ref_count r + 1\<rparr>))"

definition ExReleaseRundownProtection :: "EX_RUNDOWN_REF \<Rightarrow> EX_RUNDOWN_REF option" where
  "ExReleaseRundownProtection r =
     (if ref_count r = 0 then None else Some (r\<lparr>ref_count := ref_count r - 1\<rparr>))"

definition ExWaitForRundownProtectionRelease_begin :: "EX_RUNDOWN_REF \<Rightarrow> EX_RUNDOWN_REF" where
  "ExWaitForRundownProtectionRelease_begin r = r\<lparr>rundown_active := True\<rparr>"

definition ExWaitForRundownProtectionRelease_return :: "EX_RUNDOWN_REF \<Rightarrow> EX_RUNDOWN_REF option" where
  "ExWaitForRundownProtectionRelease_return r = (if ref_count r = 0 then Some r else None)"

definition update_protection ::
    "(EX_RUNDOWN_REF \<Rightarrow> EX_RUNDOWN_REF) \<Rightarrow> ebpf_extension_hook_client \<Rightarrow>
     ebpf_extension_hook_client" where
  "update_protection f c = c\<lparr>rundown := (rundown c)\<lparr>protection := f (protection (rundown c))\<rparr>\<rparr>"

definition ebpf_extension_hook_client_enter_rundown ::
    "addr \<Rightarrow> kstate \<Rightarrow> (bool \<times> kstate) option" where
  "ebpf_extension_hook_client_enter_rundown hook_client s =
     do {
       c \<leftarrow> deref_client s hook_client;
       let (status, r) = ExAcquireRundownProtection (protection (rundown c));
       s1 \<leftarrow> update_client hook_client (update_protection (\<lambda>_. r)) s;
       Some (status, s1)
     }"

definition ebpf_extension_hook_client_leave_rundown :: "addr \<Rightarrow> kstate \<Rightarrow> kstate option" where
  "ebpf_extension_hook_client_leave_rundown hook_client s =
     do {
       c \<leftarrow> deref_client s hook_client;
       r \<leftarrow> ExReleaseRundownProtection (protection (rundown c));
       update_client hook_client (update_protection (\<lambda>_. r)) s
     }"

text \<open>What other threads do with the guard of one client while a caller is blocked in
  the wait: calls of the two functions above, in the order they take effect.\<close>

datatype rundown_call = EnterRundown | LeaveRundown

fun run_rundown_calls ::
    "rundown_call list \<Rightarrow> addr \<Rightarrow> kstate \<Rightarrow> (bool list \<times> kstate) option" where
  "run_rundown_calls [] hook_client s = Some ([], s)"
| "run_rundown_calls (EnterRundown # calls) hook_client s =
     do {
       (status, s1) \<leftarrow> ebpf_extension_hook_client_enter_rundown hook_client s;
       (statuses, s2) \<leftarrow> run_rundown_calls calls hook_client s1;
       Some (status # statuses, s2)
     }"
| "run_rundown_calls (LeaveRundown # calls) hook_client s =
     do {
       s1 \<leftarrow> ebpf_extension_hook_client_leave_rundown hook_client s;
       run_rundown_calls calls hook_client s1
     }"

text \<open>\<open>_ebpf_ext_attach_wait_for_rundown\<close>: the wait begins, the other threads make
  their calls, and the wait returns if they have brought the count to zero; then
  \<open>rundown_occurred\<close> is set. The statuses are what the other threads' calls of
  \<open>ebpf_extension_hook_client_enter_rundown\<close> returned meanwhile.\<close>

definition ebpf_ext_attach_wait_for_rundown ::
    "rundown_call list \<Rightarrow> addr \<Rightarrow> kstate \<Rightarrow> (bool list \<times> kstate) option" where
  "ebpf_ext_attach_wait_for_rundown others hook_client s =
     do {
       s1 \<leftarrow> update_client hook_client (update_protection ExWaitForRundownProtectionRelease_begin)
               (log_event (EvWaitForRundownProtectionRelease hook_client) s);
       (statuses, s2) \<leftarrow> run_rundown_calls others hook_client s1;
       c \<leftarrow> deref_client s2 hook_client;
       r \<leftarrow> ExWaitForRundownProtectionRelease_return (protection (rundown c));
       s3 \<leftarrow> update_client hook_client
               (\<lambda>c. c\<lparr>rundown := \<lparr>protection = r, rundown_occurred = True\<rparr>\<rparr>) s2;
       Some (statuses, s3)
     }"

text \<open>\<open>_ebpf_ext_attach_init_rundown\<close>, given the work item the kernel answers.\<close>

definition ebpf_ext_attach_init_rundown ::
    "addr \<Rightarrow> addr \<Rightarrow> kstate \<Rightarrow> (NTSTATUS \<times> kstate) option" where
  "ebpf_ext_attach_init_rundown item hook_client s =
     (let (w, s1) = IoAllocateWorkItem item s in
      do {
        s2 \<leftarrow> update_client hook_client (\<lambda>c. c\<lparr>detach_work_item := w\<rparr>) s1;
        if w = NULL then Some (STATUS_INSUFFICIENT_RESOURCES, s2)
        else do {
          s3 \<leftarrow> update_client hook_client
                  (\<lambda>c. c\<lparr>rundown :=
                     \<lparr>protection = ExInitializeRundownProtection, rundown_occurred = False\<rparr>\<rparr>)
                  (log_event (EvInitializeRundownProtection hook_client) s2);
          Some (STATUS_SUCCESS, s3)
        }
      })"

subsection \<open>Attach\<close>

definition ebpf_extension_hook_client_cleanup :: "addr \<Rightarrow> kstate \<Rightarrow> kstate option" where
  "ebpf_extension_hook_client_cleanup hook_client s =
     (if hook_client \<noteq> NULL
      then do {
        c \<leftarrow> deref_client s hook_client;
        let s1 = (if detach_work_item c \<noteq> NULL then IoFreeWorkItem (detach_work_item c) s else s);
        Some (ExFreePool hook_client s1)
      }
      else Some s)"

text \<open>The arguments of the attach handler that are read through: the registration
  instance of the client (\<open>ModuleId\<close> points to the module id, \<open>None\<close> is \<open>NULL\<close>) and
  its dispatch table.\<close>

record NPI_REGISTRATION_INSTANCE =
  ModuleId :: "nat option"
  NpiSpecificCharacteristics :: "ebpf_extension_data option"

record ebpf_extension_program_dispatch_table =
  ebpf_program_invoke_function :: addr

text \<open>The run of an attach callback on the provider at \<open>provider_ctx\<close>: each call
  of the check is the function of this file, on the state as it is then.\<close>

primrec run_hook_callback ::
    "hook_callback \<Rightarrow> addr \<Rightarrow> kstate \<Rightarrow> ((ebpf_result \<times> addr) \<times> kstate) option" where
  "run_hook_callback (CallbackReturn result d) provider_ctx s = Some ((result, d), s)"
| "run_hook_callback (CallbackCheckAttachParameter n p w continue) provider_ctx s =
     do {
       (result, s1) \<leftarrow> ebpf_extension_hook_check_attach_parameter n p w provider_ctx s;
       run_hook_callback (continue result) provider_ctx s1
     }"

text \<open>The call \<open>local_provider_context->attach_callback(hook_client, local_provider_context)\<close>.\<close>

definition invoke_attach_callback :: "addr \<Rightarrow> addr \<Rightarrow> kstate \<Rightarrow> (ebpf_result \<times> kstate) option" where
  "invoke_attach_callback hook_client provider_ctx s =
     do {
       p \<leftarrow> deref_provider s provider_ctx;
       c \<leftarrow> deref_client s hook_client;
       ((result, d), s1) \<leftarrow> run_hook_callback (attach_callback p c (custom_data p)) provider_ctx
                               (log_event (EvAttachCallback hook_client) s);
       s2 \<leftarrow> update_client hook_client (\<lambda>c. c\<lparr>provider_data := d\<rparr>) s1;
       Some (result, s2)
     }"

text \<open>The block at the label \<open>Exit\<close> of the attach handler. \<open>out\<close> is what
  \<open>*provider_binding_context\<close> holds on arrival (\<open>None\<close>: not written).\<close>

definition attach_client_exit ::
    "NTSTATUS \<Rightarrow> addr \<Rightarrow> addr option \<Rightarrow> kstate \<Rightarrow> ((NTSTATUS \<times> addr option) \<times> kstate) option" where
  "attach_client_exit status hook_client out s =
     (if NT_SUCCESS status then Some ((status, Some hook_client), s)
      else do {
        s1 \<leftarrow> ebpf_extension_hook_client_cleanup hook_client s;
        Some ((status, out), s1)
      })"

text \<open>The memory \<open>memset\<close> leaves in the new client.\<close>

definition zeroed_hook_client :: ebpf_extension_hook_client where
  "zeroed_hook_client =
     \<lparr>nmr_binding_handle = NULL, client_module_id = 0, client_binding_context = NULL,
      client_data = None, invoke_program = NULL, provider_data = NULL,
      provider_context = NULL, detach_work_item = NULL,
      rundown = \<lparr>protection = \<lparr>ref_count = 0, rundown_active = False\<rparr>,
                 rundown_occurred = False\<rparr>\<rparr>"

text \<open>\<open>_ebpf_extension_hook_provider_attach_client\<close>. \<open>answers\<close> are the kernel's
  answers to the two allocations. \<open>alloc_failure_status\<close> is the status that the macro
  \<open>EBPF_EXT_BAIL_ON_ALLOC_FAILURE_STATUS\<close> stores before it jumps to \<open>Exit\<close>; the macro
  is defined in a header that is not among the sources. \<open>binding_out\<close> and
  \<open>dispatch_out\<close> are the two output pointers. The result is the status with the
  value of \<open>*provider_binding_context\<close> on return.\<close>

definition ebpf_extension_hook_provider_attach_client ::
    "kernel_answers \<Rightarrow> NTSTATUS \<Rightarrow> addr \<Rightarrow> addr \<Rightarrow> NPI_REGISTRATION_INSTANCE option \<Rightarrow> addr \<Rightarrow>
     ebpf_extension_program_dispatch_table option \<Rightarrow> addr \<Rightarrow> addr \<Rightarrow> kstate \<Rightarrow>
     ((NTSTATUS \<times> addr option) \<times> kstate) option" where
  "ebpf_extension_hook_provider_attach_client answers alloc_failure_status binding_handle
       provider_ctx client_registration_instance binding_ctx client_dispatch
       binding_out dispatch_out s =
     (if binding_out = NULL \<or> dispatch_out = NULL \<or> provider_ctx = NULL
      then attach_client_exit STATUS_INVALID_PARAMETER NULL None s
      else
        let (hook_client, s1) =
              ExAllocatePoolUninitialized (pool_block answers) (pool_block_contents answers) s
        in
        if hook_client = NULL then attach_client_exit alloc_failure_status NULL (Some NULL) s1
        else do {
          s2 \<leftarrow> update_client hook_client (\<lambda>_. zeroed_hook_client) s1;
          registration \<leftarrow> client_registration_instance;
          module_id \<leftarrow> ModuleId registration;
          s3 \<leftarrow> update_client hook_client
                  (\<lambda>c. c\<lparr>detach_work_item := NULL,
                         nmr_binding_handle := binding_handle,
                         client_module_id := module_id,
                         client_binding_context := binding_ctx,
                         client_data := NpiSpecificCharacteristics registration\<rparr>) s2;
          case client_dispatch of
            None \<Rightarrow> attach_client_exit STATUS_INVALID_PARAMETER hook_client (Some NULL) s3
          | Some client_dispatch_table \<Rightarrow>
              do {
                s4 \<leftarrow> update_client hook_client
                        (\<lambda>c. c\<lparr>invoke_program := ebpf_program_invoke_function client_dispatch_table,
                               provider_context := provider_ctx\<rparr>) s3;
                (status, s5) \<leftarrow> ebpf_ext_attach_init_rundown (io_work_item answers) hook_client s4;
                if \<not> NT_SUCCESS status then attach_client_exit status hook_client (Some NULL) s5
                else do {
                  (result, s6) \<leftarrow> invoke_attach_callback hook_client provider_ctx s5;
                  if result = EBPF_SUCCESS
                  then do {
                    s7 \<leftarrow> InsertTailList provider_ctx hook_client
                            (log_event (EvAcquireSpinLockExclusive provider_ctx) s6);
                    attach_client_exit status hook_client (Some NULL)
                      (log_event (EvReleaseSpinLockExclusive provider_ctx) s7)
                  }
                  else attach_client_exit STATUS_ACCESS_DENIED hook_client (Some NULL) s6
                }
              }
        })"

subsection \<open>Detach\<close>

text \<open>The call \<open>local_provider_context->detach_callback(local_client_context)\<close>.\<close>

definition invoke_detach_callback :: "addr \<Rightarrow> addr \<Rightarrow> kstate \<Rightarrow> kstate option" where
  "invoke_detach_callback provider_ctx hook_client s =
     do {
       p \<leftarrow> deref_provider s provider_ctx;
       c \<leftarrow> deref_client s hook_client;
       update_client hook_client (\<lambda>c'. c'\<lparr>provider_data := detach_callback p c\<rparr>)
         (log_event (EvDetachCallback hook_client) s)
     }"

text \<open>\<open>_ebpf_extension_hook_provider_detach_client\<close>. Line 403 reads
  \<open>local_client_context->provider_context\<close> before line 405 compares the pointer
  with \<open>NULL\<close>.\<close>

definition ebpf_extension_hook_provider_detach_client ::
    "addr \<Rightarrow> kstate \<Rightarrow> (NTSTATUS \<times> kstate) option" where
  "ebpf_extension_hook_provider_detach_client provider_binding_context s =
     do {
       local_client_context \<leftarrow> deref_client s provider_binding_context;
       let local_provider_context = provider_context local_client_context;
       if provider_binding_context = NULL then Some (STATUS_INVALID_PARAMETER, s)
       else do {
         s1 \<leftarrow> invoke_detach_callback local_provider_context provider_binding_context s;
         s2 \<leftarrow> RemoveEntryList local_provider_context provider_binding_context
                 (log_event (EvAcquireSpinLockExclusive local_provider_context) s1);
         let s3 = log_event (EvReleaseSpinLockExclusive local_provider_context) s2;
         c \<leftarrow> deref_client s3 provider_binding_context;
         Some (STATUS_PENDING,
               IoQueueWorkItem (detach_work_item c) provider_binding_context s3)
       }
     }"

text \<open>\<open>NmrProviderDetachClientComplete\<close> reports the detach as complete; NMR then has the
  provider free the binding context through \<open>ProviderCleanupBindingContext\<close>, which the
  file registers as \<open>_ebpf_extension_hook_provider_cleanup_binding_context\<close>.\<close>

definition ebpf_extension_hook_provider_cleanup_binding_context :: "addr \<Rightarrow> kstate \<Rightarrow> kstate" where
  "ebpf_extension_hook_provider_cleanup_binding_context provider_binding_context s =
     (if provider_binding_context \<noteq> NULL then ExFreePool provider_binding_context s else s)"

definition NmrProviderDetachClientComplete :: "addr \<Rightarrow> addr \<Rightarrow> kstate \<Rightarrow> kstate" where
  "NmrProviderDetachClientComplete binding_handle provider_binding_context s =
     ebpf_extension_hook_provider_cleanup_binding_context provider_binding_context
       (log_event (EvProviderDetachClientComplete binding_handle) s)"

text \<open>\<open>_ebpf_extension_detach_client_completion\<close>, the routine of the work item.
  \<open>others\<close> are the calls other threads make on the client's guard while the routine
  waits.\<close>

definition ebpf_extension_detach_client_completion ::
    "rundown_call list \<Rightarrow> addr \<Rightarrow> kstate \<Rightarrow> kstate option" where
  "ebpf_extension_detach_client_completion others ctx s =
     do {
       hook_client \<leftarrow> deref_client s ctx;
       let work_item = detach_work_item hook_client;
       (statuses, s1) \<leftarrow> ebpf_ext_attach_wait_for_rundown others ctx s;
       let s2 = IoFreeWorkItem work_item s1;
       c \<leftarrow> deref_client s2 ctx;
       Some (NmrProviderDetachClientComplete (nmr_binding_handle c) ctx s2)
     }"


subsection \<open>Enumeration\<close>

text \<open>\<open>Flink\<close> of the link of a client, read off the list: the next client, or the head
  (written \<open>NULL\<close> here, which is no client) after the last one. A client that is not in
  the list has a stale link, which has no defined value.\<close>

fun link_Flink :: "addr list \<Rightarrow> addr \<Rightarrow> addr option" where
  "link_Flink [] c = None"
| "link_Flink [x] c = (if x = c then Some NULL else None)"
| "link_Flink (x # y # xs) c = (if x = c then Some y else link_Flink (y # xs) c)"

definition ebpf_extension_hook_get_attached_client ::
    "addr \<Rightarrow> kstate \<Rightarrow> (addr \<times> kstate) option" where
  "ebpf_extension_hook_get_attached_client provider_ctx s =
     do {
       p \<leftarrow> deref_provider s provider_ctx;
       let s1 = log_event (EvAcquireSpinLockShared provider_ctx) s;
       let client_context =
             (case attached_clients_list p of [] \<Rightarrow> NULL | first # _ \<Rightarrow> first);
       Some (client_context, log_event (EvReleaseSpinLockShared provider_ctx) s1)
     }"

definition ebpf_extension_hook_get_next_attached_client ::
    "addr \<Rightarrow> addr \<Rightarrow> kstate \<Rightarrow> (addr \<times> kstate) option" where
  "ebpf_extension_hook_get_next_attached_client provider_ctx client_context s =
     do {
       p \<leftarrow> deref_provider s provider_ctx;
       let s1 = log_event (EvAcquireSpinLockShared provider_ctx) s;
       next_client \<leftarrow>
         (if client_context = NULL
          then Some (case attached_clients_list p of [] \<Rightarrow> NULL | first # _ \<Rightarrow> first)
          else link_Flink (attached_clients_list p) client_context);
       Some (next_client, log_event (EvReleaseSpinLockShared provider_ctx) s1)
     }"

text \<open>A caller's enumeration: the first attached client, then the next of each until
  \<open>NULL\<close>. The fuel bounds the number of calls.\<close>

fun enumerate_from :: "nat \<Rightarrow> addr \<Rightarrow> addr \<Rightarrow> kstate \<Rightarrow> (addr list \<times> kstate) option" where
  "enumerate_from 0 provider_ctx client s = None"
| "enumerate_from (Suc fuel) provider_ctx client s =
     (if client = NULL then Some ([], s)
      else do {
        (next_client, s1) \<leftarrow> ebpf_extension_hook_get_next_attached_client provider_ctx client s;
        (clients, s2) \<leftarrow> enumerate_from fuel provider_ctx next_client s1;
        Some (client # clients, s2)
      })"

definition enumerate_attached_clients ::
    "nat \<Rightarrow> addr \<Rightarrow> kstate \<Rightarrow> (addr list \<times> kstate) option" where
  "enumerate_attached_clients fuel provider_ctx s =
     do {
       (first, s1) \<leftarrow> ebpf_extension_hook_get_attached_client provider_ctx s;
       enumerate_from fuel provider_ctx first s1
     }"

subsection \<open>Sequences of attach and detach on one provider\<close>

text \<open>An attach request as the binding mechanism makes it, with the kernel's answers to
  its allocations, and a detach request for a client. The output pointers of an attach
  are valid. A run feeds the requests to the two handlers of the provider at
  \<open>provider_ctx\<close>, one after the other. The allocator does not answer with a block or
  a work item that is live, and a detach is for a client of this provider: a sequence
  that breaks either has no run.\<close>

record attach_request =
  req_answers :: kernel_answers
  req_binding_handle :: addr
  req_registration :: "NPI_REGISTRATION_INSTANCE option"
  req_binding_ctx :: addr
  req_dispatch :: "ebpf_extension_program_dispatch_table option"

datatype hook_op = AttachClient attach_request | DetachClient addr

datatype hook_outcome = Linked addr | Rejected NTSTATUS | Unlinked addr

fun run_hook_ops ::
    "NTSTATUS \<Rightarrow> addr \<Rightarrow> hook_op list \<Rightarrow> kstate \<Rightarrow> (hook_outcome list \<times> kstate) option" where
  "run_hook_ops alloc_failure_status provider_ctx [] s = Some ([], s)"
| "run_hook_ops alloc_failure_status provider_ctx (AttachClient r # ops) s =
     (if pool s (pool_block (req_answers r)) \<noteq> None \<or>
         io_work_item (req_answers r) \<in> work_items s
      then None
      else do {
        ((status, out), s1) \<leftarrow>
          ebpf_extension_hook_provider_attach_client (req_answers r) alloc_failure_status
            (req_binding_handle r) provider_ctx (req_registration r) (req_binding_ctx r)
            (req_dispatch r) 1000 1001 s;
        (outcomes, s2) \<leftarrow> run_hook_ops alloc_failure_status provider_ctx ops s1;
        Some ((case out of
                 Some hook_client \<Rightarrow>
                   if NT_SUCCESS status then Linked hook_client else Rejected status
               | None \<Rightarrow> Rejected status) # outcomes, s2)
      })"
| "run_hook_ops alloc_failure_status provider_ctx (DetachClient c # ops) s =
     do {
       cl \<leftarrow> deref_client s c;
       if provider_context cl \<noteq> provider_ctx then None
       else do {
         (status, s1) \<leftarrow> ebpf_extension_hook_provider_detach_client c s;
         (outcomes, s2) \<leftarrow> run_hook_ops alloc_failure_status provider_ctx ops s1;
         Some (Unlinked c # outcomes, s2)
       }
     }"

text \<open>The list the spec describes, from its words: a successful attach appends the client
  at the tail, and the removal of a client on detach keeps the order of the clients
  that remain.\<close>

fun attach_order_after :: "addr list \<Rightarrow> hook_outcome list \<Rightarrow> addr list" where
  "attach_order_after clients [] = clients"
| "attach_order_after clients (Linked c # outcomes) = attach_order_after (clients @ [c]) outcomes"
| "attach_order_after clients (Rejected status # outcomes) = attach_order_after clients outcomes"
| "attach_order_after clients (Unlinked c # outcomes) =
     attach_order_after (filter (\<lambda>x. x \<noteq> c) clients) outcomes"

subsection \<open>Predicates of the statements\<close>

text \<open>The client at \<open>link\<close> can be read by the loop: the link is a live client, its
  \<open>client_data\<close> is not \<open>NULL\<close>, and its data, when not \<open>NULL\<close>, has \<open>n\<close> bytes.\<close>

definition client_readable ::
    "nat \<Rightarrow> (addr \<rightharpoonup> ebpf_extension_hook_client) \<Rightarrow> addr \<Rightarrow> bool" where
  "client_readable n clients link =
     (link \<noteq> NULL \<and>
      (case clients link of
         None \<Rightarrow> False
       | Some c \<Rightarrow>
           (case client_data c of
              None \<Rightarrow> False
            | Some d \<Rightarrow> (case data d of None \<Rightarrow> True | Some bs \<Rightarrow> n \<le> length bs))))"

text \<open>The client at \<open>link\<close> has a stored parameter equal to \<open>q\<close> over \<open>n\<close> bytes, the
  stored parameter being the one the loop reads.\<close>

definition client_holds_parameter ::
    "nat \<Rightarrow> byte list \<Rightarrow> byte list \<Rightarrow> (addr \<rightharpoonup> ebpf_extension_hook_client) \<Rightarrow> addr \<Rightarrow> bool" where
  "client_holds_parameter n w q clients link =
     (case clients link of
        None \<Rightarrow> False
      | Some c \<Rightarrow>
          (case client_data c of
             None \<Rightarrow> False
           | Some d \<Rightarrow> take n (next_client_attach_parameter w d) = take n q))"

text \<open>The client at \<open>link\<close> has a \<open>client_data\<close> whose \<open>data\<close> pointer is \<open>NULL\<close>.\<close>

definition client_data_is_null ::
    "(addr \<rightharpoonup> ebpf_extension_hook_client) \<Rightarrow> addr \<Rightarrow> bool" where
  "client_data_is_null clients link =
     (case clients link of
        None \<Rightarrow> False
      | Some c \<Rightarrow> (case client_data c of None \<Rightarrow> False | Some d \<Rightarrow> data d = None))"

text \<open>The client record as the attach handler has filled it in when it calls the attach
  callback.\<close>

definition new_hook_client ::
    "addr \<Rightarrow> nat \<Rightarrow> addr \<Rightarrow> ebpf_extension_data option \<Rightarrow> addr \<Rightarrow> addr \<Rightarrow> addr \<Rightarrow>
     ebpf_extension_hook_client" where
  "new_hook_client binding_handle module_id binding_ctx npi invoke provider_ctx item =
     \<lparr>nmr_binding_handle = binding_handle, client_module_id = module_id,
      client_binding_context = binding_ctx, client_data = npi, invoke_program = invoke,
      provider_data = NULL, provider_context = provider_ctx, detach_work_item = item,
      rundown = \<lparr>protection = ExInitializeRundownProtection, rundown_occurred = False\<rparr>\<rparr>"

text \<open>What the attach callback of the provider answers for the client of an attach
  request, and the calls it makes meanwhile: its run on the state that holds the new
  client and its work item, started with an empty record of calls.\<close>

definition attach_callback_result ::
    "kernel_answers \<Rightarrow> addr \<Rightarrow> addr \<Rightarrow> NPI_REGISTRATION_INSTANCE option \<Rightarrow> addr \<Rightarrow>
     ebpf_extension_program_dispatch_table option \<Rightarrow> kstate \<Rightarrow>
     (ebpf_result \<times> addr \<times> event list) option" where
  "attach_callback_result answers binding_handle provider_ctx client_registration_instance
       binding_ctx client_dispatch s =
     do {
       registration \<leftarrow> client_registration_instance;
       module_id \<leftarrow> ModuleId registration;
       client_dispatch_table \<leftarrow> client_dispatch;
       p \<leftarrow> deref_provider s provider_ctx;
       let c = new_hook_client binding_handle module_id binding_ctx
                 (NpiSpecificCharacteristics registration)
                 (ebpf_program_invoke_function client_dispatch_table) provider_ctx
                 (io_work_item answers);
       ((result, d), s1) \<leftarrow>
         run_hook_callback (attach_callback p c (custom_data p)) provider_ctx
           (s\<lparr>pool := (pool s)(pool_block answers \<mapsto> c),
              work_items := insert (io_work_item answers) (work_items s),
              trace := []\<rparr>);
       Some (result, d, trace s1)
     }"

text \<open>The rundown reference of the client at an address.\<close>

definition client_protection :: "kstate \<Rightarrow> addr \<Rightarrow> EX_RUNDOWN_REF option" where
  "client_protection s hook_client =
     map_option (\<lambda>c. protection (rundown c)) (deref_client s hook_client)"

subsection \<open>Example states\<close>

text \<open>A client as the attach handler leaves it, with the attach parameter \<open>d\<close>, and a
  state with one provider at address 1 whose list is \<open>list\<close>.\<close>

definition example_client :: "addr \<Rightarrow> ebpf_extension_data option \<Rightarrow> ebpf_extension_hook_client" where
  "example_client item d =
     zeroed_hook_client\<lparr>nmr_binding_handle := 7, client_data := d, provider_context := 1,
                        detach_work_item := item\<rparr>"

definition accepting_callback :: "ebpf_extension_hook_client \<Rightarrow> addr \<Rightarrow> hook_callback" where
  "accepting_callback c custom = CallbackReturn EBPF_SUCCESS NULL"

text \<open>A hook-specific attach callback that validates the attach parameter of the new
  client with the check of this file, over \<open>n\<close> bytes with the wildcard \<open>w\<close>, and
  returns what the check returns.\<close>

definition checking_callback ::
    "nat \<Rightarrow> byte list \<Rightarrow> ebpf_extension_hook_client \<Rightarrow> addr \<Rightarrow> hook_callback" where
  "checking_callback n w c custom =
     (case client_data c of
        None \<Rightarrow> CallbackReturn (EBPF_OTHER_RESULT 0) NULL
      | Some d \<Rightarrow>
          CallbackCheckAttachParameter n (case data d of None \<Rightarrow> w | Some bs \<Rightarrow> bs) w
            (\<lambda>result. CallbackReturn result NULL))"

definition example_provider ::
    "(ebpf_extension_hook_client \<Rightarrow> addr \<Rightarrow> hook_callback) \<Rightarrow> addr list \<Rightarrow>
     ebpf_extension_hook_provider" where
  "example_provider cb list =
     \<lparr>nmr_provider_handle = 5, attach_callback = cb, detach_callback = (\<lambda>c. NULL),
      custom_data = NULL, attached_clients_list = list\<rparr>"

definition example_state ::
    "(ebpf_extension_hook_client \<Rightarrow> addr \<Rightarrow> hook_callback) \<Rightarrow> addr list \<Rightarrow>
     (addr \<rightharpoonup> ebpf_extension_hook_client) \<Rightarrow> kstate" where
  "example_state cb list clients =
     \<lparr>providers = [1 \<mapsto> example_provider cb list], pool = clients,
      work_items = detach_work_item ` ran clients, work_queue = [], trace = []\<rparr>"

text \<open>An attach request on the provider at address 1: the kernel answers with the pool
  block \<open>block\<close> and the work item \<open>item\<close>, and the client registers the attach
  parameter \<open>p\<close>.\<close>

definition example_answers :: "addr \<Rightarrow> addr \<Rightarrow> kernel_answers" where
  "example_answers block item =
     \<lparr>pool_block = block, pool_block_contents = zeroed_hook_client, io_work_item = item\<rparr>"

definition example_registration :: "byte list \<Rightarrow> NPI_REGISTRATION_INSTANCE option" where
  "example_registration p =
     Some \<lparr>ModuleId = Some 42,
           NpiSpecificCharacteristics = Some \<lparr>data = Some p, data_size = length p\<rparr>\<rparr>"

definition example_dispatch :: "ebpf_extension_program_dispatch_table option" where
  "example_dispatch = Some \<lparr>ebpf_program_invoke_function = 77\<rparr>"

definition example_attach ::
    "addr \<Rightarrow> addr \<Rightarrow> byte list \<Rightarrow> kstate \<Rightarrow> ((NTSTATUS \<times> addr option) \<times> kstate) option" where
  "example_attach block item p s =
     ebpf_extension_hook_provider_attach_client (example_answers block item)
       STATUS_INSUFFICIENT_RESOURCES 7 1 (example_registration p) 9 example_dispatch 1000 1001 s"

text \<open>A state with the client at address 10 linked to the provider at address 1, with
  \<open>k\<close> rundown references held.\<close>

definition example_linked_state :: "nat \<Rightarrow> kstate" where
  "example_linked_state k =
     example_state accepting_callback [10]
       [10 \<mapsto> update_protection (\<lambda>g. g\<lparr>ref_count := k\<rparr>)
                 (example_client 100 (Some \<lparr>data = Some [1, 2, 3, 4], data_size = 4\<rparr>))]"

text \<open>A sequence on the provider at address 1, whose attach callback runs the check over
  4 bytes with the wildcard 0 0 0 0: two clients attach with different parameters, a
  third asks for the parameter of the first, a fourth attaches, and the second
  detaches.\<close>

definition example_request :: "addr \<Rightarrow> addr \<Rightarrow> byte list \<Rightarrow> attach_request" where
  "example_request block item p =
     \<lparr>req_answers = example_answers block item, req_binding_handle = 7,
      req_registration = example_registration p, req_binding_ctx = 9,
      req_dispatch = example_dispatch\<rparr>"

definition example_ops :: "hook_op list" where
  "example_ops =
     [AttachClient (example_request 20 200 [1, 2, 3, 4]),
      AttachClient (example_request 30 300 [4, 5, 6, 7]),
      AttachClient (example_request 40 400 [1, 2, 3, 4]),
      AttachClient (example_request 50 500 [8, 9, 10, 11]),
      DetachClient 30]"

section \<open>Properties\<close>

lemma memcmp_eq_0:
  "memcmp a b n = Some 0 \<longleftrightarrow> n \<le> length a \<and> n \<le> length b \<and> take n a = take n b"
proof -
  have "compare_bytes xs ys = 0 \<longleftrightarrow> xs = ys" if "length xs = length ys" for xs ys
    using that by (induction xs ys rule: compare_bytes.induct) auto
  then show ?thesis
    by (auto simp: memcmp_def)
qed

subsection \<open>The attach-parameter check\<close>

lemma check_attached_clients_result:
  assumes "n \<le> length p" and "n \<le> length w"
    and "\<forall>link \<in> set list. client_readable n clients link"
  shows "check_attached_clients n p w clients list =
         Some (if \<exists>link \<in> set list. client_holds_parameter n w w clients link \<or>
                                      client_holds_parameter n w p clients link
               then EBPF_ACCESS_DENIED else EBPF_SUCCESS)"
  using assms(3)
proof (induction list)
  case Nil
  then show ?case by simp
next
  case (Cons link rest)
  from Cons.prems obtain c d where c: "link \<noteq> NULL" "clients link = Some c" "client_data c = Some d"
    and len: "n \<le> length (next_client_attach_parameter w d)"
    using assms(2)
    by (auto simp: client_readable_def next_client_attach_parameter_def split: option.splits)
  have rest: "\<forall>l \<in> set rest. client_readable n clients l"
    using Cons.prems by simp
  let ?np = "next_client_attach_parameter w d"
  have m1: "memcmp w ?np n = Some (compare_bytes (take n w) (take n ?np))"
    and m2: "memcmp p ?np n = Some (compare_bytes (take n p) (take n ?np))"
    using assms(1,2) len by (simp_all add: memcmp_def)
  have e1: "compare_bytes (take n w) (take n ?np) = 0 \<longleftrightarrow> take n ?np = take n w"
    using memcmp_eq_0[of w ?np n] m1 assms(2) len by auto
  have e2: "compare_bytes (take n p) (take n ?np) = 0 \<longleftrightarrow> take n ?np = take n p"
    using memcmp_eq_0[of p ?np n] m2 assms(1) len by auto
  have h: "client_holds_parameter n w q clients link \<longleftrightarrow> take n ?np = take n q" for q
    using c by (simp add: client_holds_parameter_def)
  show ?case
    using c m1 m2 e1 e2 Cons.IH[OF rest] by (auto simp: h Let_def)
qed

text \<open>C1. When the requested parameter equals the wildcard over the whole parameter
  size, the check returns success if the attached-client list of the provider is empty
  and access-denied if it is not.\<close>

theorem wildcard_attach_check:
  assumes "n \<le> length p" and "n \<le> length w" and "take n p = take n w"
    and "deref_provider s pc = Some prov"
  shows "map_option fst (ebpf_extension_hook_check_attach_parameter n p w pc s) =
         Some (if attached_clients_list prov = [] then EBPF_SUCCESS else EBPF_ACCESS_DENIED)"
proof -
  have "memcmp p w n = Some 0"
    using assms(1-3) by (simp add: memcmp_eq_0)
  then show ?thesis
    using assms(4)
    by (simp add: ebpf_extension_hook_check_attach_parameter_def check_attach_parameter_locked_def)
qed


text \<open>C9. In the exact branch a client in the list whose \<open>client_data\<close> has a
  \<open>NULL\<close> data pointer counts as a holder of the wildcard: while it is in the list, the
  check of every parameter that differs from the wildcard returns access-denied.\<close>

theorem null_data_client_blocks_exact_attach:
  assumes "n \<le> length p" and "n \<le> length w" and "take n p \<noteq> take n w"
    and "deref_provider s pc = Some prov"
    and "\<forall>link \<in> set (attached_clients_list prov). client_readable n (pool s) link"
    and "\<exists>link \<in> set (attached_clients_list prov). client_data_is_null (pool s) link"
  shows "map_option fst (ebpf_extension_hook_check_attach_parameter n p w pc s) =
         Some EBPF_ACCESS_DENIED"
proof -
  obtain r where r: "memcmp p w n = Some r" "r \<noteq> 0"
    using assms(1-3) memcmp_eq_0[of p w n] by (auto simp: memcmp_def)
  from assms(6) obtain link where link: "link \<in> set (attached_clients_list prov)"
    and null: "client_data_is_null (pool s) link"
    by blast
  from null have "client_holds_parameter n w w (pool s) link"
    by (auto simp: client_data_is_null_def client_holds_parameter_def
        next_client_attach_parameter_def split: option.splits)
  with link have "\<exists>link \<in> set (attached_clients_list prov).
      client_holds_parameter n w w (pool s) link \<or> client_holds_parameter n w p (pool s) link"
    by blast
  then show ?thesis
    using r assms(4) check_attached_clients_result[OF assms(1,2,5)]
    by (simp add: ebpf_extension_hook_check_attach_parameter_def
        check_attach_parameter_locked_def log_event_def)
qed

text \<open>Witnesses: a wildcard request on an empty list and on a list of one client; exact
  requests against a client holding the same parameter, another parameter and the
  wildcard; an exact request against a client with a \<open>NULL\<close> data pointer.\<close>

theorem wildcard_attach_check_witness:
  "map_option fst (ebpf_extension_hook_check_attach_parameter 4 [0, 0, 0, 0] [0, 0, 0, 0] 1
       (example_state accepting_callback [] Map.empty)) = Some EBPF_SUCCESS \<and>
   map_option fst (ebpf_extension_hook_check_attach_parameter 4 [0, 0, 0, 0] [0, 0, 0, 0] 1
       (example_state accepting_callback [10]
          [10 \<mapsto> example_client 100 (Some \<lparr>data = Some [1, 2, 3, 4], data_size = 4\<rparr>)])) =
     Some EBPF_ACCESS_DENIED"
  using wildcard_attach_check[of 4 "[0, 0, 0, 0]" "[0, 0, 0, 0]"
      "example_state accepting_callback [] Map.empty" 1 "example_provider accepting_callback []"]
    wildcard_attach_check[of 4 "[0, 0, 0, 0]" "[0, 0, 0, 0]"
      "example_state accepting_callback [10]
          [10 \<mapsto> example_client 100 (Some \<lparr>data = Some [1, 2, 3, 4], data_size = 4\<rparr>)]" 1
      "example_provider accepting_callback [10]"]
  by (simp add: example_state_def deref_provider_def example_provider_def)


theorem null_data_client_blocks_exact_attach_witness:
  "map_option fst (ebpf_extension_hook_check_attach_parameter 4 [4, 5, 6, 7] [0, 0, 0, 0] 1
       (example_state accepting_callback [10]
          [10 \<mapsto> example_client 100 (Some \<lparr>data = None, data_size = 0\<rparr>)])) =
     Some EBPF_ACCESS_DENIED"
  using null_data_client_blocks_exact_attach[of 4 "[4, 5, 6, 7]" "[0, 0, 0, 0]"
      "example_state accepting_callback [10]
          [10 \<mapsto> example_client 100 (Some \<lparr>data = None, data_size = 0\<rparr>)]" 1
      "example_provider accepting_callback [10]"]
  by (simp add: example_state_def deref_provider_def example_provider_def client_readable_def
      client_data_is_null_def example_client_def)

subsection \<open>The calls of an attach callback\<close>

text \<open>A call of the check changes nothing but the record of calls, and neither its
  result nor the run of a callback depends on the calls made before.\<close>

lemma check_attach_parameter_effect:
  assumes "ebpf_extension_hook_check_attach_parameter n p w pc s = Some (r, s1)"
  shows "s1 = s\<lparr>trace := trace s @ [EvAcquireSpinLockShared pc, EvReleaseSpinLockShared pc]\<rparr>"
  using assms
  by (auto simp: ebpf_extension_hook_check_attach_parameter_def log_event_def bind_eq_Some_conv
      Let_def)

lemma check_attach_parameter_trace:
  "ebpf_extension_hook_check_attach_parameter n p w pc (s\<lparr>trace := t\<rparr>) =
   map_option (\<lambda>(r, s1). (r, s1\<lparr>trace := t @ trace s1\<rparr>))
     (ebpf_extension_hook_check_attach_parameter n p w pc (s\<lparr>trace := []\<rparr>))"
  by (simp add: ebpf_extension_hook_check_attach_parameter_def log_event_def deref_provider_def
      Let_def split: option.splits bind_splits)

lemma run_hook_callback_effect:
  "run_hook_callback prog pc s = Some (x, s1) \<Longrightarrow>
   \<exists>evs. s1 = s\<lparr>trace := trace s @ evs\<rparr> \<and>
         set evs \<subseteq> {EvAcquireSpinLockShared pc, EvReleaseSpinLockShared pc}"
proof (induction prog arbitrary: s)
  case (CallbackReturn result d)
  then show ?case
    by (auto intro: exI[of _ "[]"])
next
  case (CallbackCheckAttachParameter n p w continue)
  from CallbackCheckAttachParameter.prems obtain r s0 where
    c: "ebpf_extension_hook_check_attach_parameter n p w pc s = Some (r, s0)"
    and k: "run_hook_callback (continue r) pc s0 = Some (x, s1)"
    by (auto simp: bind_eq_Some_conv)
  from CallbackCheckAttachParameter.IH[OF _ k] obtain evs where
    e: "s1 = s0\<lparr>trace := trace s0 @ evs\<rparr>"
    and sub: "set evs \<subseteq> {EvAcquireSpinLockShared pc, EvReleaseSpinLockShared pc}"
    by blast
  show ?case
    using e sub check_attach_parameter_effect[OF c]
    by (intro exI[of _ "[EvAcquireSpinLockShared pc, EvReleaseSpinLockShared pc] @ evs"]) simp
qed

lemma run_hook_callback_trace:
  "run_hook_callback prog pc (s\<lparr>trace := t\<rparr>) =
   map_option (\<lambda>(x, s1). (x, s1\<lparr>trace := t @ trace s1\<rparr>))
     (run_hook_callback prog pc (s\<lparr>trace := []\<rparr>))"
proof (induction prog arbitrary: s t)
  case (CallbackReturn result d)
  show ?case
    by simp
next
  case (CallbackCheckAttachParameter n p w continue)
  show ?case
  proof (cases "ebpf_extension_hook_check_attach_parameter n p w pc (s\<lparr>trace := []\<rparr>)")
    case None
    then show ?thesis
      using check_attach_parameter_trace[of n p w pc t s] by simp
  next
    case (Some a)
    obtain r s0 where a: "a = (r, s0)"
      by (cases a)
    from check_attach_parameter_effect[OF Some[unfolded a]]
    have s0: "s0 = s\<lparr>trace := [EvAcquireSpinLockShared pc, EvReleaseSpinLockShared pc]\<rparr>"
      by simp
    have l: "ebpf_extension_hook_check_attach_parameter n p w pc (s\<lparr>trace := t\<rparr>) =
          Some (r, s\<lparr>trace := t @ [EvAcquireSpinLockShared pc, EvReleaseSpinLockShared pc]\<rparr>)"
      using check_attach_parameter_trace[of n p w pc t s] Some a s0 by simp
    have ih: "run_hook_callback (continue r) pc (s\<lparr>trace := u\<rparr>) =
          map_option (\<lambda>(x, s1). (x, s1\<lparr>trace := u @ trace s1\<rparr>))
            (run_hook_callback (continue r) pc (s\<lparr>trace := []\<rparr>))" for u
      by (rule CallbackCheckAttachParameter.IH) simp
    show ?thesis
      using Some a s0 l
        ih[of "t @ [EvAcquireSpinLockShared pc, EvReleaseSpinLockShared pc]"]
        ih[of "[EvAcquireSpinLockShared pc, EvReleaseSpinLockShared pc]"]
      by (simp add: option.map_comp comp_def split_def)
  qed
qed


subsection \<open>The attach handler, path by path\<close>

lemmas attach_defs =
  ebpf_extension_hook_provider_attach_client_def attach_client_exit_def
  ebpf_extension_hook_client_cleanup_def ExAllocatePoolUninitialized_def ExFreePool_def
  IoAllocateWorkItem_def IoFreeWorkItem_def update_client_def update_provider_def
  deref_client_def deref_provider_def log_event_def ebpf_ext_attach_init_rundown_def
  invoke_attach_callback_def InsertTailList_def zeroed_hook_client_def new_hook_client_def

lemma status_simps [simp]:
  "\<not> NT_SUCCESS STATUS_INVALID_PARAMETER" "\<not> NT_SUCCESS STATUS_ACCESS_DENIED"
  "\<not> NT_SUCCESS STATUS_INSUFFICIENT_RESOURCES" "NT_SUCCESS STATUS_SUCCESS" "NT_SUCCESS STATUS_PENDING"
  by (simp_all add: NT_SUCCESS_def STATUS_INVALID_PARAMETER_def STATUS_ACCESS_DENIED_def
      STATUS_INSUFFICIENT_RESOURCES_def STATUS_SUCCESS_def STATUS_PENDING_def)

lemma invoke_attach_callback_effect:
  assumes "pc \<noteq> NULL" and "providers s pc = Some prov" and "hc \<noteq> NULL" and "pool s hc = Some c"
    and run: "run_hook_callback (attach_callback prov c (custom_data prov)) pc (s\<lparr>trace := []\<rparr>) =
           Some ((res, pd), s1)"
  shows "invoke_attach_callback hc pc s =
         Some (res, s\<lparr>pool := (pool s)(hc \<mapsto> c\<lparr>provider_data := pd\<rparr>),
                      trace := trace s @ EvAttachCallback hc # trace s1\<rparr>)"
proof -
  from run_hook_callback_effect[OF run] have s1: "s1 = s\<lparr>trace := trace s1\<rparr>"
    by auto
  have "run_hook_callback (attach_callback prov c (custom_data prov)) pc
          (s\<lparr>trace := trace s @ [EvAttachCallback hc]\<rparr>) =
        Some ((res, pd), s1\<lparr>trace := (trace s @ [EvAttachCallback hc]) @ trace s1\<rparr>)"
    by (simp add: run_hook_callback_trace[of _ pc "trace s @ [EvAttachCallback hc]" s] run)
  also have "s1\<lparr>trace := (trace s @ [EvAttachCallback hc]) @ trace s1\<rparr> =
        s\<lparr>trace := trace s @ EvAttachCallback hc # trace s1\<rparr>"
    by (subst s1) simp
  finally show ?thesis
    using assms(1-4)
    by (simp add: invoke_attach_callback_def deref_provider_def deref_client_def log_event_def
        update_client_def)
qed

lemma invoke_attach_callback_fault:
  assumes "pc \<noteq> NULL" and "providers s pc = Some prov" and "hc \<noteq> NULL" and "pool s hc = Some c"
    and run: "run_hook_callback (attach_callback prov c (custom_data prov)) pc (s\<lparr>trace := []\<rparr>) = None"
  shows "invoke_attach_callback hc pc s = None"
  using assms(1-4) run_hook_callback_trace[of "attach_callback prov c (custom_data prov)" pc
      "trace s @ [EvAttachCallback hc]" s] run
  by (simp add: invoke_attach_callback_def deref_provider_def deref_client_def log_event_def)

lemma attach_null_argument:
  assumes "binding_out = NULL \<or> dispatch_out = NULL \<or> pc = NULL"
  shows "ebpf_extension_hook_provider_attach_client A bail h pc reg b d binding_out dispatch_out s =
         Some ((STATUS_INVALID_PARAMETER, None), s)"
  using assms by (auto simp: attach_defs)

lemma attach_no_memory:
  assumes "binding_out \<noteq> NULL" "dispatch_out \<noteq> NULL" "pc \<noteq> NULL" "pool_block A = NULL"
  shows "ebpf_extension_hook_provider_attach_client A bail h pc reg b d binding_out dispatch_out s =
         Some ((bail, Some NULL), s)"
  using assms by (auto simp: attach_defs)

lemma attach_no_dispatch:
  assumes "binding_out \<noteq> NULL" "dispatch_out \<noteq> NULL" "pc \<noteq> NULL" "pool_block A \<noteq> NULL"
    and "reg = Some r" "ModuleId r = Some m" "d = None"
  shows "ebpf_extension_hook_provider_attach_client A bail h pc reg b d binding_out dispatch_out s =
         Some ((STATUS_INVALID_PARAMETER, Some NULL),
               s\<lparr>pool := (pool s)(pool_block A := None),
                 trace := trace s @ [EvAllocatePool (pool_block A), EvFreePool (pool_block A)]\<rparr>)"
  using assms by (simp add: attach_defs)

lemma attach_no_work_item:
  assumes "binding_out \<noteq> NULL" "dispatch_out \<noteq> NULL" "pc \<noteq> NULL" "pool_block A \<noteq> NULL"
    and "reg = Some r" "ModuleId r = Some m" "d = Some tbl" "io_work_item A = NULL"
  shows "ebpf_extension_hook_provider_attach_client A bail h pc reg b d binding_out dispatch_out s =
         Some ((STATUS_INSUFFICIENT_RESOURCES, Some NULL),
               s\<lparr>pool := (pool s)(pool_block A := None),
                 trace := trace s @ [EvAllocatePool (pool_block A), EvFreePool (pool_block A)]\<rparr>)"
  using assms by (simp add: attach_defs)

lemma attach_fault_registration:
  assumes "binding_out \<noteq> NULL" "dispatch_out \<noteq> NULL" "pc \<noteq> NULL" "pool_block A \<noteq> NULL"
    and "reg = None \<or> (\<exists>r. reg = Some r \<and> ModuleId r = None)"
  shows "ebpf_extension_hook_provider_attach_client A bail h pc reg b d binding_out dispatch_out s = None"
  using assms by (auto simp: attach_defs split: prod.splits)

text \<open>With valid arguments and both allocations answered, the handler reaches the call
  of the attach callback with the new client filled in, and goes on with its result.\<close>

lemma attach_reaches_callback:
  assumes "binding_out \<noteq> NULL" "dispatch_out \<noteq> NULL" "pc \<noteq> NULL" "pool_block A \<noteq> NULL"
    and "reg = Some r" "ModuleId r = Some m" "d = Some tbl" "io_work_item A \<noteq> NULL"
  shows "ebpf_extension_hook_provider_attach_client A bail h pc reg b d binding_out dispatch_out s =
         do {
           (result, s6) \<leftarrow> invoke_attach_callback (pool_block A) pc
              (s\<lparr>pool := (pool s)(pool_block A \<mapsto>
                    new_hook_client h m b (NpiSpecificCharacteristics r)
                      (ebpf_program_invoke_function tbl) pc (io_work_item A)),
                 work_items := insert (io_work_item A) (work_items s),
                 trace := trace s @
                   [EvAllocatePool (pool_block A), EvAllocateWorkItem (io_work_item A),
                    EvInitializeRundownProtection (pool_block A)]\<rparr>);
           if result = EBPF_SUCCESS
           then do {
             s7 \<leftarrow> InsertTailList pc (pool_block A) (log_event (EvAcquireSpinLockExclusive pc) s6);
             attach_client_exit STATUS_SUCCESS (pool_block A) (Some NULL)
               (log_event (EvReleaseSpinLockExclusive pc) s7)
           }
           else attach_client_exit STATUS_ACCESS_DENIED (pool_block A) (Some NULL) s6
         }"
proof -
  have reorder: "s\<lparr>work_items := w, trace := t, pool := p\<rparr> =
                 s\<lparr>pool := p, work_items := w, trace := t\<rparr>" for w t p
    by simp
  show ?thesis
    using assms
    by (simp add: ebpf_extension_hook_provider_attach_client_def ExAllocatePoolUninitialized_def
        IoAllocateWorkItem_def update_client_def deref_client_def log_event_def
        ebpf_ext_attach_init_rundown_def zeroed_hook_client_def new_hook_client_def reorder)
qed

lemma attach_fault_provider:
  assumes "binding_out \<noteq> NULL" "dispatch_out \<noteq> NULL" "pc \<noteq> NULL" "pool_block A \<noteq> NULL"
    and "reg = Some r" "ModuleId r = Some m" "d = Some tbl" "io_work_item A \<noteq> NULL"
    and "providers s pc = None"
  shows "ebpf_extension_hook_provider_attach_client A bail h pc reg b d binding_out dispatch_out s = None"
  using assms(9)
  by (simp add: attach_reaches_callback[OF assms(1-8)] invoke_attach_callback_def deref_provider_def)

lemma attach_callback_fault:
  assumes "binding_out \<noteq> NULL" "dispatch_out \<noteq> NULL" "pc \<noteq> NULL" "pool_block A \<noteq> NULL"
    and "reg = Some r" "ModuleId r = Some m" "d = Some tbl" "io_work_item A \<noteq> NULL"
    and "attach_callback_result A h pc reg b d s = None"
  shows "ebpf_extension_hook_provider_attach_client A bail h pc reg b d binding_out dispatch_out s = None"
proof (cases "providers s pc")
  case None
  then show ?thesis
    by (rule attach_fault_provider[OF assms(1-8)])
next
  case (Some prov)
  let ?c0 = "new_hook_client h m b (NpiSpecificCharacteristics r)
                (ebpf_program_invoke_function tbl) pc (io_work_item A)"
  let ?s5 = "s\<lparr>pool := (pool s)(pool_block A \<mapsto> ?c0),
                 work_items := insert (io_work_item A) (work_items s),
                 trace := trace s @
                   [EvAllocatePool (pool_block A), EvAllocateWorkItem (io_work_item A),
                    EvInitializeRundownProtection (pool_block A)]\<rparr>"
  have "run_hook_callback (attach_callback prov ?c0 (custom_data prov)) pc (?s5\<lparr>trace := []\<rparr>) = None"
    using assms(3,5,6,7,9) Some
    by (auto simp: attach_callback_result_def deref_provider_def Let_def bind_eq_None_conv
        split_def)
  from invoke_attach_callback_fault[OF assms(3) _ assms(4) _ this] Some
  have "invoke_attach_callback (pool_block A) pc ?s5 = None"
    by simp
  then show ?thesis
    by (simp add: attach_reaches_callback[OF assms(1-8)])
qed

lemma attach_callback_failed:
  assumes "binding_out \<noteq> NULL" "dispatch_out \<noteq> NULL" "pc \<noteq> NULL" "pool_block A \<noteq> NULL"
    and "reg = Some r" "ModuleId r = Some m" "d = Some tbl" "io_work_item A \<noteq> NULL"
    and "attach_callback_result A h pc reg b d s = Some (res, pd, evs)"
    and "res \<noteq> EBPF_SUCCESS"
  shows "ebpf_extension_hook_provider_attach_client A bail h pc reg b d binding_out dispatch_out s =
         Some ((STATUS_ACCESS_DENIED, Some NULL),
               s\<lparr>pool := (pool s)(pool_block A := None),
                 work_items := insert (io_work_item A) (work_items s) - {io_work_item A},
                 trace := trace s @
                   [EvAllocatePool (pool_block A), EvAllocateWorkItem (io_work_item A),
                    EvInitializeRundownProtection (pool_block A), EvAttachCallback (pool_block A)] @
                   evs @ [EvFreeWorkItem (io_work_item A), EvFreePool (pool_block A)]\<rparr>)"
proof -
  let ?c0 = "new_hook_client h m b (NpiSpecificCharacteristics r)
                (ebpf_program_invoke_function tbl) pc (io_work_item A)"
  let ?s5 = "s\<lparr>pool := (pool s)(pool_block A \<mapsto> ?c0),
                 work_items := insert (io_work_item A) (work_items s),
                 trace := trace s @
                   [EvAllocatePool (pool_block A), EvAllocateWorkItem (io_work_item A),
                    EvInitializeRundownProtection (pool_block A)]\<rparr>"
  from assms(3,5,6,7,9) obtain prov s1 where prov: "providers s pc = Some prov"
    and run: "run_hook_callback (attach_callback prov ?c0 (custom_data prov)) pc (?s5\<lparr>trace := []\<rparr>) =
           Some ((res, pd), s1)"
    and evs: "trace s1 = evs"
    by (auto simp: attach_callback_result_def deref_provider_def bind_eq_Some_conv Let_def)
  from invoke_attach_callback_effect[OF assms(3) _ assms(4) _ run] prov
  have "invoke_attach_callback (pool_block A) pc ?s5 =
        Some (res, ?s5\<lparr>pool := (pool ?s5)(pool_block A \<mapsto> ?c0\<lparr>provider_data := pd\<rparr>),
                      trace := trace ?s5 @ EvAttachCallback (pool_block A) # evs\<rparr>)"
    by (simp add: evs)
  then show ?thesis
    using assms(4,8,10)
    by (simp add: attach_reaches_callback[OF assms(1-8)] attach_client_exit_def
        ebpf_extension_hook_client_cleanup_def deref_client_def IoFreeWorkItem_def ExFreePool_def
        log_event_def new_hook_client_def)
qed

lemma attach_linked:
  assumes "binding_out \<noteq> NULL" "dispatch_out \<noteq> NULL" "pc \<noteq> NULL" "pool_block A \<noteq> NULL"
    and "reg = Some r" "ModuleId r = Some m" "d = Some tbl" "io_work_item A \<noteq> NULL"
    and "providers s pc = Some prov"
    and "attach_callback_result A h pc reg b d s = Some (EBPF_SUCCESS, pd, evs)"
  shows "ebpf_extension_hook_provider_attach_client A bail h pc reg b d binding_out dispatch_out s =
         Some ((STATUS_SUCCESS, Some (pool_block A)),
               s\<lparr>providers := (providers s)(pc \<mapsto>
                    prov\<lparr>attached_clients_list := attached_clients_list prov @ [pool_block A]\<rparr>),
                 pool := (pool s)(pool_block A \<mapsto>
                    (new_hook_client h m b (NpiSpecificCharacteristics r)
                       (ebpf_program_invoke_function tbl) pc (io_work_item A))\<lparr>provider_data := pd\<rparr>),
                 work_items := insert (io_work_item A) (work_items s),
                 trace := trace s @
                   [EvAllocatePool (pool_block A), EvAllocateWorkItem (io_work_item A),
                    EvInitializeRundownProtection (pool_block A), EvAttachCallback (pool_block A)] @
                   evs @ [EvAcquireSpinLockExclusive pc, EvInsertTailList pc (pool_block A),
                          EvReleaseSpinLockExclusive pc]\<rparr>)"
proof -
  let ?c0 = "new_hook_client h m b (NpiSpecificCharacteristics r)
                (ebpf_program_invoke_function tbl) pc (io_work_item A)"
  let ?s5 = "s\<lparr>pool := (pool s)(pool_block A \<mapsto> ?c0),
                 work_items := insert (io_work_item A) (work_items s),
                 trace := trace s @
                   [EvAllocatePool (pool_block A), EvAllocateWorkItem (io_work_item A),
                    EvInitializeRundownProtection (pool_block A)]\<rparr>"
  from assms(3,5,6,7,9,10) obtain s1 where
    run: "run_hook_callback (attach_callback prov ?c0 (custom_data prov)) pc (?s5\<lparr>trace := []\<rparr>) =
           Some ((EBPF_SUCCESS, pd), s1)"
    and evs: "trace s1 = evs"
    by (auto simp: attach_callback_result_def deref_provider_def bind_eq_Some_conv Let_def)
  from invoke_attach_callback_effect[OF assms(3) _ assms(4) _ run] assms(9)
  have "invoke_attach_callback (pool_block A) pc ?s5 =
        Some (EBPF_SUCCESS, ?s5\<lparr>pool := (pool ?s5)(pool_block A \<mapsto> ?c0\<lparr>provider_data := pd\<rparr>),
                      trace := trace ?s5 @ EvAttachCallback (pool_block A) # evs\<rparr>)"
    by (simp add: evs)
  then show ?thesis
    using assms(3,9)
    by (simp add: attach_reaches_callback[OF assms(1-8)] attach_client_exit_def
        InsertTailList_def update_provider_def deref_provider_def log_event_def)
qed


text \<open>Every return of the attach handler is one of five.\<close>

lemma attach_client_cases:
  assumes ret: "ebpf_extension_hook_provider_attach_client A bail h pc reg b d binding_out
                  dispatch_out s = Some ((status, out), s')"
  shows "(binding_out = NULL \<or> dispatch_out = NULL \<or> pc = NULL) \<and>
           status = STATUS_INVALID_PARAMETER \<and> out = None \<and> s' = s
       \<or> pool_block A = NULL \<and> status = bail \<and> out = Some NULL \<and> s' = s
       \<or> pool_block A \<noteq> NULL \<and> (d = None \<and> status = STATUS_INVALID_PARAMETER \<or>
            d \<noteq> None \<and> io_work_item A = NULL \<and> status = STATUS_INSUFFICIENT_RESOURCES) \<and>
           out = Some NULL \<and>
           s' = s\<lparr>pool := (pool s)(pool_block A := None),
                  trace := trace s @ [EvAllocatePool (pool_block A), EvFreePool (pool_block A)]\<rparr>
       \<or> pool_block A \<noteq> NULL \<and> io_work_item A \<noteq> NULL \<and>
           status = STATUS_ACCESS_DENIED \<and> out = Some NULL \<and>
           (\<exists>res pd evs. attach_callback_result A h pc reg b d s = Some (res, pd, evs) \<and>
              res \<noteq> EBPF_SUCCESS \<and>
              s' = s\<lparr>pool := (pool s)(pool_block A := None),
                     work_items := insert (io_work_item A) (work_items s) - {io_work_item A},
                     trace := trace s @
                       [EvAllocatePool (pool_block A), EvAllocateWorkItem (io_work_item A),
                        EvInitializeRundownProtection (pool_block A),
                        EvAttachCallback (pool_block A)] @
                       evs @ [EvFreeWorkItem (io_work_item A), EvFreePool (pool_block A)]\<rparr>)
       \<or> pool_block A \<noteq> NULL \<and> io_work_item A \<noteq> NULL \<and> pc \<noteq> NULL \<and>
           status = STATUS_SUCCESS \<and> out = Some (pool_block A) \<and>
           (\<exists>prov c pd evs. providers s pc = Some prov \<and>
              attach_callback_result A h pc reg b d s = Some (EBPF_SUCCESS, pd, evs) \<and>
              nmr_binding_handle c = h \<and> provider_context c = pc \<and>
              detach_work_item c = io_work_item A \<and>
              rundown c = \<lparr>protection = ExInitializeRundownProtection, rundown_occurred = False\<rparr> \<and>
              client_data c = (case reg of None \<Rightarrow> None | Some r \<Rightarrow> NpiSpecificCharacteristics r) \<and>
              s' = s\<lparr>providers := (providers s)(pc \<mapsto>
                       prov\<lparr>attached_clients_list := attached_clients_list prov @ [pool_block A]\<rparr>),
                     pool := (pool s)(pool_block A \<mapsto> c),
                     work_items := insert (io_work_item A) (work_items s),
                     trace := trace s @
                       [EvAllocatePool (pool_block A), EvAllocateWorkItem (io_work_item A),
                        EvInitializeRundownProtection (pool_block A),
                        EvAttachCallback (pool_block A)] @
                       evs @ [EvAcquireSpinLockExclusive pc, EvInsertTailList pc (pool_block A),
                              EvReleaseSpinLockExclusive pc]\<rparr>)"
proof (cases "binding_out = NULL \<or> dispatch_out = NULL \<or> pc = NULL")
  case True
  then show ?thesis using ret attach_null_argument[OF True, of A bail h reg b d s] by auto
next
  case nn: False
  then have n1: "binding_out \<noteq> NULL" and n2: "dispatch_out \<noteq> NULL" and n3: "pc \<noteq> NULL"
    by simp_all
  show ?thesis
  proof (cases "pool_block A = NULL")
    case True
    then show ?thesis using ret nn attach_no_memory[of binding_out dispatch_out pc A bail h reg b d s] by auto
  next
    case blk: False
    have "\<not> (reg = None \<or> (\<exists>r. reg = Some r \<and> ModuleId r = None))"
    proof
      assume "reg = None \<or> (\<exists>r. reg = Some r \<and> ModuleId r = None)"
      from attach_fault_registration[OF n1 n2 n3 blk this] ret show False by simp
    qed
    then obtain r m where reg: "reg = Some r" "ModuleId r = Some m"
      by (cases reg) auto
    show ?thesis
    proof (cases d)
      case None
      then show ?thesis
        using ret nn blk reg attach_no_dispatch[of binding_out dispatch_out pc A reg r m d bail h b s]
        by auto
    next
      case (Some tbl)
      show ?thesis
      proof (cases "io_work_item A = NULL")
        case True
        then show ?thesis
          using ret nn blk reg Some
            attach_no_work_item[of binding_out dispatch_out pc A reg r m d tbl bail h b s]
          by auto
      next
        case wi: False
        have "providers s pc \<noteq> None"
        proof
          assume "providers s pc = None"
          from attach_fault_provider[OF n1 n2 n3 blk reg Some wi this] ret show False by simp
        qed
        then obtain prov where prov: "providers s pc = Some prov"
          by auto
        have "attach_callback_result A h pc reg b d s \<noteq> None"
        proof
          assume "attach_callback_result A h pc reg b d s = None"
          from attach_callback_fault[OF n1 n2 n3 blk reg Some wi this] ret show False by simp
        qed
        then obtain res pd evs where
          acr: "attach_callback_result A h pc reg b d s = Some (res, pd, evs)"
          by (cases "attach_callback_result A h pc reg b d s") auto
        define c0 where "c0 = new_hook_client h m b (NpiSpecificCharacteristics r)
                (ebpf_program_invoke_function tbl) pc (io_work_item A)"
        show ?thesis
        proof (cases "res = EBPF_SUCCESS")
          case True
          note l = attach_linked[OF n1 n2 n3 blk reg Some wi prov acr[unfolded True],
              folded c0_def]
          have c: "nmr_binding_handle (c0\<lparr>provider_data := pd\<rparr>) = h \<and>
                provider_context (c0\<lparr>provider_data := pd\<rparr>) = pc \<and>
                detach_work_item (c0\<lparr>provider_data := pd\<rparr>) = io_work_item A \<and>
                rundown (c0\<lparr>provider_data := pd\<rparr>) =
                  \<lparr>protection = ExInitializeRundownProtection, rundown_occurred = False\<rparr> \<and>
                client_data (c0\<lparr>provider_data := pd\<rparr>) =
                  (case reg of None \<Rightarrow> None | Some r \<Rightarrow> NpiSpecificCharacteristics r)"
            by (simp add: c0_def new_hook_client_def reg)
          show ?thesis
            using ret l blk wi n3 prov acr True c
            by (auto intro!: exI[of _ "c0\<lparr>provider_data := pd\<rparr>"])
        next
          case False
          then show ?thesis
            using ret blk wi acr
              attach_callback_failed[OF n1 n2 n3 blk reg Some wi acr False]
            by auto
        qed
      qed
    qed
  qed
qed

subsection \<open>Order and unwinding of attach\<close>

text \<open>C3, as amended. The steps of an attach request, in this order, each rejection
  ending the request. A \<open>NULL\<close> output pointer or provider context rejects first, with
  invalid-parameter and before any call. Then the client record is allocated; a failed
  allocation rejects with the allocation-failure status. Then a \<open>NULL\<close> client
  dispatch table rejects with invalid-parameter, and the record is freed. Then the
  detach work item is allocated and the rundown guard initialized; a failed allocation
  rejects with insufficient-resources, and the record is freed. Then the hook-specific
  attach callback is invoked; its failure rejects with access-denied, and only on its
  success is the client appended to the list, between taking and releasing the
  exclusive lock. The calls of the handler are exactly these: it takes no shared lock
  and does not run the attach-parameter check, and the only calls of the check during
  an attach are those the callback makes, between the call of the callback and what
  follows it. The result is the status with the client handle written, the calls made,
  and the list of the provider on return.\<close>

theorem attach_client_order:
  "map_option
     (\<lambda>r. (fst r, drop (length (trace s)) (trace (snd r)),
           map_option attached_clients_list (providers (snd r) pc)))
     (ebpf_extension_hook_provider_attach_client A bail h pc reg b d binding_out dispatch_out s) =
   (if binding_out = NULL \<or> dispatch_out = NULL \<or> pc = NULL
    then Some ((STATUS_INVALID_PARAMETER, None), [],
               map_option attached_clients_list (providers s pc))
    else if pool_block A = NULL
    then Some ((bail, Some NULL), [], map_option attached_clients_list (providers s pc))
    else case reg \<bind> ModuleId of
      None \<Rightarrow> None
    | Some module_id \<Rightarrow>
        if d = None
        then Some ((STATUS_INVALID_PARAMETER, Some NULL),
                   [EvAllocatePool (pool_block A), EvFreePool (pool_block A)],
                   map_option attached_clients_list (providers s pc))
        else if io_work_item A = NULL
        then Some ((STATUS_INSUFFICIENT_RESOURCES, Some NULL),
                   [EvAllocatePool (pool_block A), EvFreePool (pool_block A)],
                   map_option attached_clients_list (providers s pc))
        else case attach_callback_result A h pc reg b d s of
          None \<Rightarrow> None
        | Some (result, pd, callback_events) \<Rightarrow>
            if result = EBPF_SUCCESS
            then Some ((STATUS_SUCCESS, Some (pool_block A)),
                       [EvAllocatePool (pool_block A), EvAllocateWorkItem (io_work_item A),
                        EvInitializeRundownProtection (pool_block A),
                        EvAttachCallback (pool_block A)] @
                       callback_events @
                       [EvAcquireSpinLockExclusive pc, EvInsertTailList pc (pool_block A),
                        EvReleaseSpinLockExclusive pc],
                       map_option (\<lambda>p. attached_clients_list p @ [pool_block A]) (providers s pc))
            else Some ((STATUS_ACCESS_DENIED, Some NULL),
                       [EvAllocatePool (pool_block A), EvAllocateWorkItem (io_work_item A),
                        EvInitializeRundownProtection (pool_block A),
                        EvAttachCallback (pool_block A)] @
                       callback_events @
                       [EvFreeWorkItem (io_work_item A), EvFreePool (pool_block A)],
                       map_option attached_clients_list (providers s pc)))"
proof (cases "binding_out = NULL \<or> dispatch_out = NULL \<or> pc = NULL")
  case True
  then show ?thesis
    by (simp add: attach_null_argument)
next
  case False
  then have n: "binding_out \<noteq> NULL" "dispatch_out \<noteq> NULL" "pc \<noteq> NULL"
    by simp_all
  show ?thesis
  proof (cases "pool_block A = NULL")
    case True
    then show ?thesis
      using n by (simp add: attach_no_memory)
  next
    case blk: False
    show ?thesis
    proof (cases "reg \<bind> ModuleId")
      case None
      then have "reg = None \<or> (\<exists>r. reg = Some r \<and> ModuleId r = None)"
        by (cases reg) auto
      from attach_fault_registration[OF n blk this] None n blk show ?thesis
        by simp
    next
      case (Some m)
      then obtain r where reg: "reg = Some r" "ModuleId r = Some m"
        by (cases reg) auto
      show ?thesis
      proof (cases d)
        case None
        from attach_no_dispatch[OF n blk reg None] Some None n blk show ?thesis
          by simp
      next
        case tbl: (Some tbl)
        show ?thesis
        proof (cases "io_work_item A = NULL")
          case True
          from attach_no_work_item[OF n blk reg tbl True] Some tbl True n blk show ?thesis
            by simp
        next
          case wi: False
          show ?thesis
          proof (cases "attach_callback_result A h pc reg b d s")
            case None
            from attach_callback_fault[OF n blk reg tbl wi None] Some tbl None n blk wi show ?thesis
              by simp
          next
            case acr: (Some a)
            obtain res pd evs where a: "a = (res, pd, evs)"
              by (cases a)
            from acr n(3) obtain prov where prov: "providers s pc = Some prov"
              by (auto simp: attach_callback_result_def deref_provider_def bind_eq_Some_conv)
            show ?thesis
            proof (cases "res = EBPF_SUCCESS")
              case True
              from attach_linked[OF n blk reg tbl wi prov acr[unfolded a True]]
                Some tbl acr a True n blk wi prov
              show ?thesis
                by simp
            next
              case False
              from attach_callback_failed[OF n blk reg tbl wi acr[unfolded a] False]
                Some tbl acr a False n blk wi prov
              show ?thesis
                by simp
            qed
          qed
        qed
      qed
    qed
  qed
qed

text \<open>C4. An attach request that returns a failure leaves the attached-client list of
  every provider unchanged, and the pool and the allocated work items as they were: the
  client record and its detach work item are released. The block and the work item
  that the kernel answers with are fresh.\<close>

theorem rejected_attach_is_unwound:
  assumes "ebpf_extension_hook_provider_attach_client A bail h pc reg b d binding_out
             dispatch_out s = Some ((status, out), s')"
    and "\<not> NT_SUCCESS status"
    and "pool s (pool_block A) = None" and "io_work_item A \<notin> work_items s"
  shows "providers s' = providers s \<and> pool s' = pool s \<and> work_items s' = work_items s \<and>
         work_queue s' = work_queue s \<and> (out = None \<or> out = Some NULL)"
  using attach_client_cases[OF assms(1)] assms(2-4)
  by (elim disjE conjE exE) (simp_all add: fun_upd_idem)


lemmas example_defs =
  example_attach_def example_answers_def example_registration_def example_dispatch_def
  example_state_def example_provider_def example_client_def accepting_callback_def
  checking_callback_def

lemmas check_defs =
  ebpf_extension_hook_check_attach_parameter_def check_attach_parameter_locked_def memcmp_def
  next_client_attach_parameter_def

lemma example_request_simps:
  "pool_block (example_answers block item) = block"
  "io_work_item (example_answers block item) = item"
  "example_registration p \<bind> ModuleId = Some 42"
  "example_dispatch \<noteq> None"
  "map_option f (providers (example_state cb list clients) (Suc 0)) =
     Some (f (example_provider cb list))"
  "attached_clients_list (example_provider cb list) = list"
  "trace (example_state cb list clients) = []"
  by (simp_all add: example_answers_def example_registration_def example_dispatch_def
      example_state_def example_provider_def)

lemma example_callback_result:
  "attach_callback_result (example_answers 20 200) 7 (Suc 0) (example_registration [1, 2, 3, 4]) 9
     example_dispatch
     (example_state (checking_callback 4 [0, 0, 0, 0]) [10]
        [10 \<mapsto> example_client 100 (Some \<lparr>data = Some [5, 6, 7, 8], data_size = 4\<rparr>)]) =
   Some (EBPF_SUCCESS, NULL, [EvAcquireSpinLockShared 1, EvReleaseSpinLockShared 1])"
  by (simp add: attach_callback_result_def example_defs check_defs deref_provider_def
      log_event_def new_hook_client_def zeroed_hook_client_def)

text \<open>Witness: an attach on a list of one client, with a callback that runs the check;
  the parameters differ, the callback accepts and the client is linked.\<close>

theorem attach_client_order_witness:
  "map_option (\<lambda>r. (fst r, trace (snd r), map_option attached_clients_list (providers (snd r) 1)))
     (example_attach 20 200 [1, 2, 3, 4]
        (example_state (checking_callback 4 [0, 0, 0, 0]) [10]
           [10 \<mapsto> example_client 100 (Some \<lparr>data = Some [5, 6, 7, 8], data_size = 4\<rparr>)])) =
   Some ((STATUS_SUCCESS, Some 20),
         [EvAllocatePool 20, EvAllocateWorkItem 200, EvInitializeRundownProtection 20,
          EvAttachCallback 20, EvAcquireSpinLockShared 1, EvReleaseSpinLockShared 1,
          EvAcquireSpinLockExclusive 1, EvInsertTailList 1 20, EvReleaseSpinLockExclusive 1],
         Some [10, 20])"
  using attach_client_order[of
      "example_state (checking_callback 4 [0, 0, 0, 0]) [10]
         [10 \<mapsto> example_client 100 (Some \<lparr>data = Some [5, 6, 7, 8], data_size = 4\<rparr>)]"
      1 "example_answers 20 200" STATUS_INSUFFICIENT_RESOURCES 7 "example_registration [1, 2, 3, 4]"
      9 example_dispatch 1000 1001]
  by (simp add: example_callback_result example_attach_def example_request_simps)

text \<open>C3 as stated fails. A client holding the wildcard is attached and a client asks
  for the parameter 1 2 3 4: the check denies it, yet with a callback that accepts,
  the attach handler returns success and links the second client. With a callback that
  runs the check, the attach is denied after the client record and its work item were
  allocated and the rundown guard initialized, and the check takes the shared lock
  within the callback, not before it.\<close>

theorem attach_runs_no_parameter_check_counterexample:
  "map_option fst
     (ebpf_extension_hook_check_attach_parameter 4 [1, 2, 3, 4] [0, 0, 0, 0] 1
        (example_state accepting_callback [10]
           [10 \<mapsto> example_client 100 (Some \<lparr>data = Some [0, 0, 0, 0], data_size = 4\<rparr>)])) =
     Some EBPF_ACCESS_DENIED \<and>
   map_option (\<lambda>r. (fst r, map_option attached_clients_list (providers (snd r) 1)))
     (example_attach 20 200 [1, 2, 3, 4]
        (example_state accepting_callback [10]
           [10 \<mapsto> example_client 100 (Some \<lparr>data = Some [0, 0, 0, 0], data_size = 4\<rparr>)])) =
     Some ((STATUS_SUCCESS, Some 20), Some [10, 20]) \<and>
   map_option (\<lambda>r. (fst r, trace (snd r)))
     (example_attach 20 200 [1, 2, 3, 4]
        (example_state (checking_callback 4 [0, 0, 0, 0]) [10]
           [10 \<mapsto> example_client 100 (Some \<lparr>data = Some [0, 0, 0, 0], data_size = 4\<rparr>)])) =
     Some ((STATUS_ACCESS_DENIED, Some NULL),
           [EvAllocatePool 20, EvAllocateWorkItem 200, EvInitializeRundownProtection 20,
            EvAttachCallback 20, EvAcquireSpinLockShared 1, EvReleaseSpinLockShared 1,
            EvFreeWorkItem 200, EvFreePool 20])"
  by (simp add: example_defs attach_defs check_defs)

text \<open>Witness: an attach that the callback rejects for a parameter already held.\<close>

theorem rejected_attach_is_unwound_witness:
  "map_option (\<lambda>r. (fst r, providers (snd r) = providers (example_state (checking_callback 4 [0, 0, 0, 0]) [10]
           [10 \<mapsto> example_client 100 (Some \<lparr>data = Some [1, 2, 3, 4], data_size = 4\<rparr>)]),
           pool (snd r), work_items (snd r)))
     (example_attach 20 200 [1, 2, 3, 4]
        (example_state (checking_callback 4 [0, 0, 0, 0]) [10]
           [10 \<mapsto> example_client 100 (Some \<lparr>data = Some [1, 2, 3, 4], data_size = 4\<rparr>)])) =
   Some ((STATUS_ACCESS_DENIED, Some NULL), True,
         [10 \<mapsto> example_client 100 (Some \<lparr>data = Some [1, 2, 3, 4], data_size = 4\<rparr>)], {100})"
proof -
  let ?s = "example_state (checking_callback 4 [0, 0, 0, 0]) [10]
           [10 \<mapsto> example_client 100 (Some \<lparr>data = Some [1, 2, 3, 4], data_size = 4\<rparr>)]"
  obtain s' where e: "example_attach 20 200 [1, 2, 3, 4] ?s = Some ((STATUS_ACCESS_DENIED, Some NULL), s')"
    by (simp add: example_defs attach_defs check_defs)
  have "pool ?s (pool_block (example_answers 20 200)) = None"
    and "io_work_item (example_answers 20 200) \<notin> work_items ?s"
    by (simp_all add: example_defs zeroed_hook_client_def)
  from rejected_attach_is_unwound[OF e[unfolded example_attach_def] _ this] e
  show ?thesis
    by (simp add: example_defs zeroed_hook_client_def)
qed

subsection \<open>The detach handler\<close>

lemmas detach_defs =
  ebpf_extension_hook_provider_detach_client_def invoke_detach_callback_def RemoveEntryList_def
  IoQueueWorkItem_def update_client_def update_provider_def deref_client_def deref_provider_def
  log_event_def

lemma detach_null: "ebpf_extension_hook_provider_detach_client NULL s = None"
  by (simp add: detach_defs)

lemma detach_linked:
  assumes "c \<noteq> NULL" and "pool s c = Some cl" and "provider_context cl \<noteq> NULL"
    and "providers s (provider_context cl) = Some prov"
    and "c \<in> set (attached_clients_list prov)"
  shows "ebpf_extension_hook_provider_detach_client c s =
         Some (STATUS_PENDING,
               s\<lparr>providers := (providers s)(provider_context cl \<mapsto>
                    prov\<lparr>attached_clients_list := remove1 c (attached_clients_list prov)\<rparr>),
                 pool := (pool s)(c \<mapsto> cl\<lparr>provider_data := detach_callback prov cl\<rparr>),
                 work_queue := work_queue s @ [(detach_work_item cl, c)],
                 trace := trace s @
                   [EvDetachCallback c, EvAcquireSpinLockExclusive (provider_context cl),
                    EvRemoveEntryList c, EvReleaseSpinLockExclusive (provider_context cl),
                    EvQueueWorkItem (detach_work_item cl) c]\<rparr>)"
  using assms by (simp add: detach_defs Let_def)

lemma detach_returns:
  assumes "ebpf_extension_hook_provider_detach_client c s = Some (status, s')"
  shows "c \<noteq> NULL \<and> (\<exists>cl prov. pool s c = Some cl \<and> provider_context cl \<noteq> NULL \<and>
           providers s (provider_context cl) = Some prov \<and>
           c \<in> set (attached_clients_list prov))"
  using assms
  by (auto simp: detach_defs Let_def bind_eq_Some_conv split: if_splits)

subsection \<open>Rundown calls\<close>

lemmas rundown_defs =
  ebpf_extension_hook_client_enter_rundown_def ebpf_extension_hook_client_leave_rundown_def
  ExAcquireRundownProtection_def ExReleaseRundownProtection_def update_protection_def
  update_client_def deref_client_def client_protection_def

lemma enter_rundown_effect:
  assumes "c \<noteq> NULL" and "pool s c = Some cl"
  shows "ebpf_extension_hook_client_enter_rundown c s =
         Some (\<not> rundown_active (protection (rundown cl)),
               s\<lparr>pool := (pool s)(c \<mapsto> update_protection
                    (\<lambda>g. if rundown_active g then g else g\<lparr>ref_count := ref_count g + 1\<rparr>) cl)\<rparr>)"
  using assms by (simp add: rundown_defs)

lemma leave_rundown_effect:
  assumes "c \<noteq> NULL" and "pool s c = Some cl"
  shows "ebpf_extension_hook_client_leave_rundown c s =
         (if ref_count (protection (rundown cl)) = 0 then None
          else Some (s\<lparr>pool := (pool s)(c \<mapsto> update_protection
                    (\<lambda>g. g\<lparr>ref_count := ref_count g - 1\<rparr>) cl)\<rparr>))"
  using assms by (simp add: rundown_defs)

lemma if_fun_upd [simp]: "(\<lambda>a. if a = c then v else f a) = f(c := v)"
  by (rule ext) simp

lemma update_protection_simps [simp]:
  "protection (rundown (update_protection f cl)) = f (protection (rundown cl))"
  "update_protection f (update_protection g cl) = update_protection (\<lambda>x. f (g x)) cl"
  "update_protection (\<lambda>_. protection (rundown cl)) cl = cl"
  "update_protection (\<lambda>x. x) cl = cl"
  "nmr_binding_handle (update_protection f cl) = nmr_binding_handle cl"
  "detach_work_item (update_protection f cl) = detach_work_item cl"
  "provider_context (update_protection f cl) = provider_context cl"
  "client_data (update_protection f cl) = client_data cl"
  "rundown_occurred (rundown (update_protection f cl)) = rundown_occurred (rundown cl)"
  by (simp_all add: update_protection_def)

lemma run_rundown_calls_effect:
  assumes "run_rundown_calls calls c s = Some (statuses, s')"
    and "c \<noteq> NULL" and "pool s c = Some cl"
  shows "\<exists>g. s' = s\<lparr>pool := (pool s)(c \<mapsto> update_protection (\<lambda>_. g) cl)\<rparr> \<and>
             rundown_active g = rundown_active (protection (rundown cl)) \<and>
             ref_count g + count_list calls LeaveRundown =
               ref_count (protection (rundown cl)) + length (filter id statuses) \<and>
             (rundown_active g \<longrightarrow> (\<forall>st \<in> set statuses. \<not> st))"
  using assms
proof (induction calls arbitrary: s cl statuses)
  case Nil
  then have "s' = s" and "statuses = []"
    by simp_all
  with Nil.prems(2,3) show ?case
    by (intro exI[of _ "protection (rundown cl)"]) (simp add: map_upd_triv)
next
  case (Cons call calls)
  show ?case
  proof (cases call)
    case EnterRundown
    let ?cl1 = "update_protection
        (\<lambda>g. if rundown_active g then g else g\<lparr>ref_count := ref_count g + 1\<rparr>) cl"
    let ?s1 = "s\<lparr>pool := (pool s)(c \<mapsto> ?cl1)\<rparr>"
    from Cons.prems EnterRundown obtain rest where
      run: "run_rundown_calls calls c ?s1 = Some (rest, s')"
      and st: "statuses = (\<not> rundown_active (protection (rundown cl))) # rest"
      by (auto simp: enter_rundown_effect bind_eq_Some_conv)
    have "pool ?s1 c = Some ?cl1" by simp
    from Cons.IH[OF run Cons.prems(2) this] show ?thesis
      unfolding st EnterRundown
      by (cases "rundown_active (protection (rundown cl))") auto
  next
    case LeaveRundown
    let ?cl1 = "update_protection (\<lambda>g. g\<lparr>ref_count := ref_count g - 1\<rparr>) cl"
    let ?s1 = "s\<lparr>pool := (pool s)(c \<mapsto> ?cl1)\<rparr>"
    from Cons.prems LeaveRundown have pos: "ref_count (protection (rundown cl)) \<noteq> 0"
      and run: "run_rundown_calls calls c ?s1 = Some (statuses, s')"
      by (auto simp: leave_rundown_effect bind_eq_Some_conv split: if_splits)
    have "pool ?s1 c = Some ?cl1" by simp
    from Cons.IH[OF run Cons.prems(2) this] pos show ?thesis
      unfolding LeaveRundown
      by auto
  qed
qed

lemma leave_all_returns:
  assumes "c \<noteq> NULL" and "pool s c = Some cl" and "k \<le> ref_count (protection (rundown cl))"
  shows "run_rundown_calls (replicate k LeaveRundown) c s =
         Some ([], s\<lparr>pool := (pool s)(c \<mapsto> update_protection
                     (\<lambda>g. g\<lparr>ref_count := ref_count g - k\<rparr>) cl)\<rparr>)"
  using assms
proof (induction k arbitrary: s cl)
  case 0
  then show ?case by (simp add: map_upd_triv)
next
  case (Suc k)
  let ?cl1 = "update_protection (\<lambda>g. g\<lparr>ref_count := ref_count g - 1\<rparr>) cl"
  let ?s1 = "s\<lparr>pool := (pool s)(c \<mapsto> ?cl1)\<rparr>"
  have leave: "ebpf_extension_hook_client_leave_rundown c s = Some ?s1"
    using Suc.prems by (simp add: leave_rundown_effect)
  have "run_rundown_calls (replicate (Suc k) LeaveRundown) c s =
        run_rundown_calls (replicate k LeaveRundown) c ?s1"
    using leave by simp
  also have "\<dots> = Some ([], ?s1\<lparr>pool := (pool ?s1)(c \<mapsto> update_protection
                     (\<lambda>g. g\<lparr>ref_count := ref_count g - k\<rparr>) ?cl1)\<rparr>)"
    using Suc.prems by (intro Suc.IH) simp_all
  also have "?s1\<lparr>pool := (pool ?s1)(c \<mapsto> update_protection
                     (\<lambda>g. g\<lparr>ref_count := ref_count g - k\<rparr>) ?cl1)\<rparr> =
             s\<lparr>pool := (pool s)(c \<mapsto> update_protection
                     (\<lambda>g. g\<lparr>ref_count := ref_count g - Suc k\<rparr>) cl)\<rparr>"
    by simp
  finally show ?case .
qed

subsection \<open>The wait and the completion routine\<close>

lemma update_client_effect:
  assumes "deref_client s p = Some c"
  shows "update_client p f s = Some (s\<lparr>pool := (pool s)(p \<mapsto> f c)\<rparr>)"
  using assms by (simp add: update_client_def)

lemma wait_for_rundown_begin:
  assumes "c \<noteq> NULL" and "pool s c = Some cl"
  shows "update_client c (update_protection ExWaitForRundownProtectionRelease_begin)
           (log_event (EvWaitForRundownProtectionRelease c) s) =
         Some (s\<lparr>pool := (pool s)(c \<mapsto>
                   update_protection ExWaitForRundownProtectionRelease_begin cl),
                 trace := trace s @ [EvWaitForRundownProtectionRelease c]\<rparr>)"
  using assms by (simp add: update_client_def deref_client_def log_event_def)

lemma wait_for_rundown_effect:
  assumes "ebpf_ext_attach_wait_for_rundown others c s = Some (statuses, s')"
    and "c \<noteq> NULL" and "pool s c = Some cl"
  shows "s' = s\<lparr>pool := (pool s)(c \<mapsto> cl\<lparr>rundown :=
                  \<lparr>protection = \<lparr>ref_count = 0, rundown_active = True\<rparr>,
                   rundown_occurred = True\<rparr>\<rparr>),
                trace := trace s @ [EvWaitForRundownProtectionRelease c]\<rparr> \<and>
         (\<forall>st \<in> set statuses. \<not> st) \<and>
         count_list others LeaveRundown = ref_count (protection (rundown cl))"
proof -
  let ?cl1 = "update_protection ExWaitForRundownProtectionRelease_begin cl"
  define s1 where "s1 = s\<lparr>pool := (pool s)(c \<mapsto> ?cl1),
               trace := trace s @ [EvWaitForRundownProtectionRelease c]\<rparr>"
  note u = wait_for_rundown_begin[OF assms(2,3), folded s1_def]
  have p1: "pool s1 c = Some ?cl1"
    by (simp add: s1_def)
  from assms(1) obtain s2 cl2 r where run: "run_rundown_calls others c s1 = Some (statuses, s2)"
    and cl2: "deref_client s2 c = Some cl2"
    and r: "ExWaitForRundownProtectionRelease_return (protection (rundown cl2)) = Some r"
    and s': "update_client c (\<lambda>c. c\<lparr>rundown := \<lparr>protection = r, rundown_occurred = True\<rparr>\<rparr>) s2 =
             Some s'"
    by (auto simp: ebpf_ext_attach_wait_for_rundown_def u bind_eq_Some_conv)
  from run_rundown_calls_effect[OF run assms(2) p1]
  obtain g where g: "s2 = s1\<lparr>pool := (pool s1)(c \<mapsto> update_protection (\<lambda>_. g) ?cl1)\<rparr>"
    and act: "rundown_active g"
    and cnt: "ref_count g + count_list others LeaveRundown =
              ref_count (protection (rundown cl)) + length (filter id statuses)"
    and no: "\<forall>st \<in> set statuses. \<not> st"
    by (auto simp: ExWaitForRundownProtectionRelease_begin_def)
  from no have nofilter: "filter id statuses = []"
    by (simp add: filter_empty_conv)
  have c2: "cl2 = update_protection (\<lambda>_. g) cl"
    using cl2 g assms(2) by (simp add: deref_client_def)
  have zero: "ref_count g = 0" and rg: "r = g"
    using r c2 by (auto simp: ExWaitForRundownProtectionRelease_return_def split: if_splits)
  have geq: "g = \<lparr>ref_count = 0, rundown_active = True\<rparr>"
    using zero act by (cases g) simp
  have "s' = s2\<lparr>pool := (pool s2)(c \<mapsto> cl2\<lparr>rundown :=
                  \<lparr>protection = r, rundown_occurred = True\<rparr>\<rparr>)\<rparr>"
    using s' cl2 by (auto simp: update_client_def bind_eq_Some_conv)
  then have "s' = s\<lparr>pool := (pool s)(c \<mapsto> cl\<lparr>rundown :=
                  \<lparr>protection = \<lparr>ref_count = 0, rundown_active = True\<rparr>,
                   rundown_occurred = True\<rparr>\<rparr>),
                trace := trace s @ [EvWaitForRundownProtectionRelease c]\<rparr>"
    by (simp add: g s1_def c2 rg geq update_protection_def)
  then show ?thesis
    using cnt nofilter no zero by simp
qed

lemma wait_for_rundown_returns:
  assumes "c \<noteq> NULL" and "pool s c = Some cl"
  shows "\<exists>s'. ebpf_ext_attach_wait_for_rundown
           (replicate (ref_count (protection (rundown cl))) LeaveRundown) c s = Some ([], s')"
proof -
  let ?cl1 = "update_protection ExWaitForRundownProtectionRelease_begin cl"
  let ?k = "ref_count (protection (rundown cl))"
  define s1 where "s1 = s\<lparr>pool := (pool s)(c \<mapsto> ?cl1),
               trace := trace s @ [EvWaitForRundownProtectionRelease c]\<rparr>"
  note u = wait_for_rundown_begin[OF assms, folded s1_def]
  define s2 where "s2 = s1\<lparr>pool := (pool s1)(c \<mapsto> update_protection
          (\<lambda>g. g\<lparr>ref_count := ref_count g - ?k\<rparr>) ?cl1)\<rparr>"
  have p1: "pool s1 c = Some ?cl1"
    by (simp add: s1_def)
  have "?k \<le> ref_count (protection (rundown ?cl1))"
    by (simp add: ExWaitForRundownProtectionRelease_begin_def)
  from leave_all_returns[OF assms(1) p1 this]
  have run: "run_rundown_calls (replicate ?k LeaveRundown) c s1 = Some ([], s2)"
    by (simp only: s2_def)
  have p2: "deref_client s2 c = Some (update_protection
          (\<lambda>g. (ExWaitForRundownProtectionRelease_begin g)\<lparr>ref_count :=
             ref_count (ExWaitForRundownProtectionRelease_begin g) - ?k\<rparr>) cl)"
    using assms(1) by (simp add: s2_def s1_def deref_client_def)
  show ?thesis
    by (simp add: ebpf_ext_attach_wait_for_rundown_def u run p2 update_client_effect
        ExWaitForRundownProtectionRelease_return_def ExWaitForRundownProtectionRelease_begin_def)
qed

lemmas completion_defs =
  ebpf_extension_detach_client_completion_def NmrProviderDetachClientComplete_def
  ebpf_extension_hook_provider_cleanup_binding_context_def IoFreeWorkItem_def ExFreePool_def
  deref_client_def log_event_def

lemma completion_after_wait:
  assumes "ebpf_ext_attach_wait_for_rundown others c s = Some (statuses, s1)"
    and "c \<noteq> NULL" and "pool s c = Some cl"
  shows "ebpf_extension_detach_client_completion others c s =
         Some (s\<lparr>pool := (pool s)(c := None),
                work_items := work_items s - {detach_work_item cl},
                trace := trace s @
                  [EvWaitForRundownProtectionRelease c, EvFreeWorkItem (detach_work_item cl),
                   EvProviderDetachClientComplete (nmr_binding_handle cl), EvFreePool c]\<rparr>)"
  using assms wait_for_rundown_effect[OF assms]
  by (simp add: completion_defs Let_def)

lemma completion_effect:
  assumes "ebpf_extension_detach_client_completion others c s = Some s'"
    and "c \<noteq> NULL" and "pool s c = Some cl"
  shows "s' = s\<lparr>pool := (pool s)(c := None),
                work_items := work_items s - {detach_work_item cl},
                trace := trace s @
                  [EvWaitForRundownProtectionRelease c, EvFreeWorkItem (detach_work_item cl),
                   EvProviderDetachClientComplete (nmr_binding_handle cl), EvFreePool c]\<rparr> \<and>
         count_list others LeaveRundown = ref_count (protection (rundown cl))"
proof -
  from assms obtain statuses s1 where
    w: "ebpf_ext_attach_wait_for_rundown others c s = Some (statuses, s1)"
    by (auto simp: ebpf_extension_detach_client_completion_def deref_client_def bind_eq_Some_conv)
  have "Some s' = ebpf_extension_detach_client_completion others c s"
    using assms(1) by simp
  also note completion_after_wait[OF w assms(2,3)]
  finally show ?thesis
    using wait_for_rundown_effect[OF w assms(2,3)] by simp
qed

lemma completion_returns:
  assumes "c \<noteq> NULL" and "pool s c = Some cl"
  shows "\<exists>s'. ebpf_extension_detach_client_completion
           (replicate (ref_count (protection (rundown cl))) LeaveRundown) c s = Some s'"
proof -
  from wait_for_rundown_returns[OF assms] obtain s1 where
    w: "ebpf_ext_attach_wait_for_rundown
           (replicate (ref_count (protection (rundown cl))) LeaveRundown) c s = Some ([], s1)"
    by blast
  from completion_after_wait[OF w assms] show ?thesis
    by blast
qed

subsection \<open>Detach and rundown\<close>


text \<open>C5. A detach request for a linked client is not rejected: the detach handler
  returns pending and queues one work item for the client. Once the holders of the
  client's rundown references have left, the routine of that work item returns, and
  whenever it returns it has called \<open>NmrProviderDetachClientComplete\<close> for the
  client's binding handle exactly once and the client's block is freed, so that the
  routine cannot run for it again.\<close>

theorem detach_pending_then_completed_once:
  assumes "c \<noteq> NULL" and "pool s c = Some cl" and "provider_context cl \<noteq> NULL"
    and "providers s (provider_context cl) = Some prov"
    and "c \<in> set (attached_clients_list prov)"
  shows "\<exists>s1. ebpf_extension_hook_provider_detach_client c s = Some (STATUS_PENDING, s1) \<and>
           work_queue s1 = work_queue s @ [(detach_work_item cl, c)] \<and>
           (\<exists>s2. ebpf_extension_detach_client_completion
                   (replicate (ref_count (protection (rundown cl))) LeaveRundown) c s1 = Some s2) \<and>
           (\<forall>others s2. ebpf_extension_detach_client_completion others c s1 = Some s2 \<longrightarrow>
              count_list others LeaveRundown = ref_count (protection (rundown cl)) \<and>
              count_list (trace s2) (EvProviderDetachClientComplete (nmr_binding_handle cl)) =
                count_list (trace s) (EvProviderDetachClientComplete (nmr_binding_handle cl)) + 1 \<and>
              pool s2 c = None)"
proof -
  let ?cl1 = "cl\<lparr>provider_data := detach_callback prov cl\<rparr>"
  note d = detach_linked[OF assms]
  define s1 where "s1 = snd (the (ebpf_extension_hook_provider_detach_client c s))"
  have ret: "ebpf_extension_hook_provider_detach_client c s = Some (STATUS_PENDING, s1)"
    by (simp add: s1_def d)
  have p1: "pool s1 c = Some ?cl1" and q1: "work_queue s1 = work_queue s @ [(detach_work_item cl, c)]"
    and t1: "trace s1 = trace s @
                   [EvDetachCallback c, EvAcquireSpinLockExclusive (provider_context cl),
                    EvRemoveEntryList c, EvReleaseSpinLockExclusive (provider_context cl),
                    EvQueueWorkItem (detach_work_item cl) c]"
    by (simp_all add: s1_def d)
  from completion_returns[OF assms(1) p1]
  have ex: "\<exists>s2. ebpf_extension_detach_client_completion
                   (replicate (ref_count (protection (rundown cl))) LeaveRundown) c s1 = Some s2"
    by simp
  have all: "count_list others LeaveRundown = ref_count (protection (rundown cl)) \<and>
              count_list (trace s2) (EvProviderDetachClientComplete (nmr_binding_handle cl)) =
                count_list (trace s) (EvProviderDetachClientComplete (nmr_binding_handle cl)) + 1 \<and>
              pool s2 c = None"
    if "ebpf_extension_detach_client_completion others c s1 = Some s2" for others s2
    using completion_effect[OF that assms(1) p1] t1 by simp
  show ?thesis
    using ret q1 ex all by blast
qed


text \<open>C10. The detach handler reads \<open>provider_context\<close> through its argument before it
  compares the argument with \<open>NULL\<close>: on \<open>NULL\<close> the read has no defined result, and
  whenever the handler returns, its argument is not \<open>NULL\<close> and the status is pending,
  never invalid-parameter.\<close>

theorem detach_null_check_unreachable:
  "ebpf_extension_hook_provider_detach_client NULL s = None \<and>
   (\<forall>status s'. ebpf_extension_hook_provider_detach_client c s = Some (status, s') \<longrightarrow>
      c \<noteq> NULL \<and> status = STATUS_PENDING \<and> status \<noteq> STATUS_INVALID_PARAMETER)"
proof -
  have "c \<noteq> NULL \<and> status = STATUS_PENDING \<and> status \<noteq> STATUS_INVALID_PARAMETER"
    if r: "ebpf_extension_hook_provider_detach_client c s = Some (status, s')" for status s'
  proof -
    from detach_returns[OF r] obtain cl prov where c: "c \<noteq> NULL" and cl: "pool s c = Some cl"
      and pc: "provider_context cl \<noteq> NULL" and prov: "providers s (provider_context cl) = Some prov"
      and mem: "c \<in> set (attached_clients_list prov)"
      by blast
    from detach_linked[OF c cl pc prov mem] r have "status = STATUS_PENDING"
      by simp
    then show ?thesis
      using c by (simp add: STATUS_PENDING_def STATUS_INVALID_PARAMETER_def)
  qed
  then show ?thesis
    by (simp add: detach_null)
qed

text \<open>C7. On a guard that was initialized, after any calls of enter and leave, once the
  wait has begun every call of \<open>ebpf_extension_hook_client_enter_rundown\<close> fails, while
  the wait is blocked and after it has returned; and the wait returns only when the
  references are all released: the calls of leave before and during the wait are as
  many as the calls of enter that succeeded, and the count is zero.\<close>

theorem rundown_guard_drains:
  assumes "c \<noteq> NULL" and "pool s c = Some cl"
    and "protection (rundown cl) = ExInitializeRundownProtection"
    and "run_rundown_calls before c s = Some (entered, s1)"
    and "ebpf_ext_attach_wait_for_rundown during c s1 = Some (refused, s2)"
    and "run_rundown_calls after c s2 = Some (late, s3)"
  shows "(\<forall>st \<in> set refused. \<not> st) \<and> (\<forall>st \<in> set late. \<not> st) \<and>
         length (filter id entered) =
           count_list before LeaveRundown + count_list during LeaveRundown \<and>
         client_protection s2 c = Some \<lparr>ref_count = 0, rundown_active = True\<rparr> \<and>
         ebpf_extension_hook_client_enter_rundown c s2 = Some (False, s2)"
proof -
  from run_rundown_calls_effect[OF assms(4,1,2)] obtain g where
    s1: "s1 = s\<lparr>pool := (pool s)(c \<mapsto> update_protection (\<lambda>_. g) cl)\<rparr>"
    and cnt: "ref_count g + count_list before LeaveRundown =
              ref_count (protection (rundown cl)) + length (filter id entered)"
    by blast
  have p1: "pool s1 c = Some (update_protection (\<lambda>_. g) cl)"
    by (simp add: s1)
  note w = wait_for_rundown_effect[OF assms(5,1) p1]
  let ?cl2 = "(update_protection (\<lambda>_. g) cl)\<lparr>rundown :=
                  \<lparr>protection = \<lparr>ref_count = 0, rundown_active = True\<rparr>,
                   rundown_occurred = True\<rparr>\<rparr>"
  have p2: "pool s2 c = Some ?cl2"
    using w by simp
  from run_rundown_calls_effect[OF assms(6,1) p2]
  have late: "\<forall>st \<in> set late. \<not> st"
    by auto
  from w have refused: "\<forall>st \<in> set refused. \<not> st"
    by blast
  have matched: "length (filter id entered) =
           count_list before LeaveRundown + count_list during LeaveRundown"
    using cnt w assms(3) by (simp add: ExInitializeRundownProtection_def)
  have drained: "client_protection s2 c = Some \<lparr>ref_count = 0, rundown_active = True\<rparr>"
    using p2 assms(1) by (simp add: client_protection_def deref_client_def)
  have closed: "ebpf_extension_hook_client_enter_rundown c s2 = Some (False, s2)"
    using enter_rundown_effect[OF assms(1) p2] p2
    by (simp add: update_protection_def map_upd_triv)
  from refused late matched drained closed show ?thesis
    by blast
qed

subsection \<open>Witnesses of detach and rundown\<close>

lemma example_linked_state_simps:
  "pool (example_linked_state k) 10 =
     Some (update_protection (\<lambda>g. g\<lparr>ref_count := k\<rparr>)
         (example_client 100 (Some \<lparr>data = Some [1, 2, 3, 4], data_size = 4\<rparr>)))"
  "providers (example_linked_state k) (Suc 0) = Some (example_provider accepting_callback [10])"
  "trace (example_linked_state k) = []"
  "work_queue (example_linked_state k) = []"
  by (simp_all add: example_linked_state_def example_state_def)

lemma example_client_simps:
  "provider_context (example_client item d) = Suc 0"
  "nmr_binding_handle (example_client item d) = 7"
  "detach_work_item (example_client item d) = item"
  "rundown (example_client item d) =
     \<lparr>protection = \<lparr>ref_count = 0, rundown_active = False\<rparr>, rundown_occurred = False\<rparr>"
  "attached_clients_list (example_provider cb list) = list"
  by (simp_all add: example_client_def zeroed_hook_client_def example_provider_def)

theorem detach_pending_then_completed_once_witness:
  "map_option fst (ebpf_extension_hook_provider_detach_client 10 (example_linked_state 2)) =
     Some STATUS_PENDING \<and>
   map_option (\<lambda>s2. count_list (trace s2) (EvProviderDetachClientComplete 7))
     (ebpf_extension_hook_provider_detach_client 10 (example_linked_state 2) \<bind>
        (\<lambda>r. ebpf_extension_detach_client_completion [LeaveRundown, LeaveRundown] 10 (snd r))) =
     Some 1 \<and>
   ebpf_extension_hook_provider_detach_client 10 (example_linked_state 2) \<bind>
        (\<lambda>r. ebpf_extension_detach_client_completion [LeaveRundown] 10 (snd r)) = None"
proof -
  let ?cl = "update_protection (\<lambda>g. g\<lparr>ref_count := 2\<rparr>)
         (example_client 100 (Some \<lparr>data = Some [1, 2, 3, 4], data_size = 4\<rparr>))"
  have k: "replicate (ref_count (protection (rundown ?cl))) LeaveRundown =
           [LeaveRundown, LeaveRundown]"
    by (simp add: example_client_simps numeral_2_eq_2)
  from detach_pending_then_completed_once[of 10 "example_linked_state 2" ?cl
      "example_provider accepting_callback [10]"]
  obtain s1 s2 where
    a: "ebpf_extension_hook_provider_detach_client 10 (example_linked_state 2) =
        Some (STATUS_PENDING, s1)"
    and b: "ebpf_extension_detach_client_completion [LeaveRundown, LeaveRundown] 10 s1 = Some s2"
    and c: "\<And>others s2. ebpf_extension_detach_client_completion others 10 s1 = Some s2 \<Longrightarrow>
              count_list others LeaveRundown = ref_count (protection (rundown ?cl)) \<and>
              count_list (trace s2) (EvProviderDetachClientComplete (nmr_binding_handle ?cl)) =
                count_list (trace (example_linked_state 2))
                  (EvProviderDetachClientComplete (nmr_binding_handle ?cl)) + 1"
    unfolding k by (auto simp: example_linked_state_simps example_client_simps)
  from c[OF b] have once: "count_list (trace s2) (EvProviderDetachClientComplete 7) = 1"
    by (simp add: example_linked_state_simps example_client_simps)
  have blocked: "ebpf_extension_detach_client_completion [LeaveRundown] 10 s1 = None"
  proof (cases "ebpf_extension_detach_client_completion [LeaveRundown] 10 s1")
    case (Some s3)
    from c[OF Some] show ?thesis
      by (simp add: example_client_simps)
  qed simp
  show ?thesis
    using a b once blocked by simp
qed

lemma example_detach_returns:
  "\<exists>s1. ebpf_extension_hook_provider_detach_client 10 (example_linked_state k) =
         Some (STATUS_PENDING, s1)"
  using detach_linked[of 10 "example_linked_state k" _ "example_provider accepting_callback [10]"]
  by (simp add: example_linked_state_simps example_client_simps)


theorem detach_null_check_unreachable_witness:
  "ebpf_extension_hook_provider_detach_client NULL (example_linked_state 0) = None \<and>
   map_option fst (ebpf_extension_hook_provider_detach_client 10 (example_linked_state 0)) =
     Some STATUS_PENDING \<and>
   STATUS_PENDING \<noteq> STATUS_INVALID_PARAMETER"
proof -
  from example_detach_returns[of 0] obtain s1 where
    e: "ebpf_extension_hook_provider_detach_client 10 (example_linked_state 0) =
      Some (STATUS_PENDING, s1)"
    by blast
  note t = detach_null_check_unreachable[of "example_linked_state 0" 10]
  from t have "ebpf_extension_hook_provider_detach_client NULL (example_linked_state 0) = None"
    by (rule conjunct1)
  moreover from t e have "STATUS_PENDING \<noteq> STATUS_INVALID_PARAMETER"
    by blast
  ultimately show ?thesis
    using e by simp
qed

lemma example_rundown_runs:
  "run_rundown_calls [EnterRundown, EnterRundown, LeaveRundown] 10 (example_linked_state 0) =
     Some ([True, True], example_linked_state 1)"
  "ebpf_ext_attach_wait_for_rundown [EnterRundown] 10 (example_linked_state (Suc 0)) = None"
  by (simp_all add: example_linked_state_def example_state_def rundown_defs
      ebpf_ext_attach_wait_for_rundown_def log_event_def example_client_simps
      ExWaitForRundownProtectionRelease_begin_def ExWaitForRundownProtectionRelease_return_def)

theorem rundown_guard_drains_witness:
  "do {
     (entered, s1) \<leftarrow> run_rundown_calls [EnterRundown, EnterRundown, LeaveRundown] 10
                        (example_linked_state 0);
     (refused, s2) \<leftarrow> ebpf_ext_attach_wait_for_rundown [EnterRundown, LeaveRundown] 10 s1;
     (late, s3) \<leftarrow> run_rundown_calls [EnterRundown] 10 s2;
     Some (entered, refused, late, client_protection s2 10)
   } = Some ([True, True], [False], [False], Some \<lparr>ref_count = 0, rundown_active = True\<rparr>) \<and>
   do {
     (entered, s1) \<leftarrow> run_rundown_calls [EnterRundown, EnterRundown, LeaveRundown] 10
                        (example_linked_state 0);
     (refused, s2) \<leftarrow> ebpf_ext_attach_wait_for_rundown [EnterRundown] 10 s1;
     Some refused
   } = None"
proof -
  let ?cl = "update_protection (\<lambda>g. g\<lparr>ref_count := 0\<rparr>)
           (example_client 100 (Some \<lparr>data = Some [1, 2, 3, 4], data_size = 4\<rparr>))"
  obtain refused s2 where
    w: "ebpf_ext_attach_wait_for_rundown [EnterRundown, LeaveRundown] 10 (example_linked_state 1) =
        Some (refused, s2)"
    and lr: "length refused = 1"
    by (simp add: example_linked_state_def example_state_def rundown_defs
      ebpf_ext_attach_wait_for_rundown_def log_event_def example_client_simps
      ExWaitForRundownProtectionRelease_begin_def ExWaitForRundownProtectionRelease_return_def)
  have "pool s2 10 \<noteq> None"
    using wait_for_rundown_effect[OF w, of _] by (simp add: example_linked_state_simps)
  then obtain cl2 where "pool s2 10 = Some cl2"
    by blast
  from enter_rundown_effect[OF _ this]
  have "\<exists>late s3. run_rundown_calls [EnterRundown] 10 s2 = Some (late, s3) \<and> length late = 1"
    by simp
  then obtain late s3 where
    l: "run_rundown_calls [EnterRundown] 10 s2 = Some (late, s3)" and ll: "length late = 1"
    by blast
  from rundown_guard_drains[OF _ example_linked_state_simps(1)[of 0] _ example_rundown_runs(1) w l]
  have r: "(\<forall>st \<in> set refused. \<not> st) \<and> (\<forall>st \<in> set late. \<not> st) \<and>
         client_protection s2 10 = Some \<lparr>ref_count = 0, rundown_active = True\<rparr>"
    by (auto simp: example_client_simps ExInitializeRundownProtection_def)
  from r lr have "refused = [False]"
    by (cases refused) auto
  moreover from r ll have "late = [False]"
    by (cases late) auto
  ultimately show ?thesis
    using r w l by (simp del: run_rundown_calls.simps add: example_rundown_runs)
qed

subsection \<open>Enumeration of the attached clients\<close>

lemma link_Flink_member:
  assumes "distinct (pre @ x # rest)"
  shows "link_Flink (pre @ x # rest) x = Some (case rest of [] \<Rightarrow> NULL | y # _ \<Rightarrow> y)"
  using assms
proof (induction pre)
  case Nil
  then show ?case by (cases rest) simp_all
next
  case (Cons p pre)
  then have "p \<noteq> x" by auto
  moreover obtain q qs where "pre @ x # rest = q # qs"
    by (cases "pre @ x # rest") simp_all
  ultimately show ?case
    using Cons by simp
qed

lemmas enumerate_defs =
  ebpf_extension_hook_get_attached_client_def ebpf_extension_hook_get_next_attached_client_def
  enumerate_attached_clients_def deref_provider_def log_event_def

lemma get_next_attached_client_member:
  assumes "pc \<noteq> NULL" and "providers s pc = Some prov"
    and "attached_clients_list prov = pre @ x # rest" and "distinct (pre @ x # rest)"
    and "x \<noteq> NULL"
  shows "ebpf_extension_hook_get_next_attached_client pc x s =
         Some (case rest of [] \<Rightarrow> NULL | y # _ \<Rightarrow> y,
               s\<lparr>trace := trace s @ [EvAcquireSpinLockShared pc, EvReleaseSpinLockShared pc]\<rparr>)"
  using assms link_Flink_member[OF assms(4)]
  by (simp add: enumerate_defs)

lemma enumerate_from_member:
  assumes "pc \<noteq> NULL" and "providers s pc = Some prov"
    and "attached_clients_list prov = pre @ x # rest" and "distinct (pre @ x # rest)"
    and "NULL \<notin> set (pre @ x # rest)" and "Suc (length rest) < fuel"
  shows "map_option fst (enumerate_from fuel pc x s) = Some (x # rest)"
  using assms
proof (induction rest arbitrary: pre x s fuel)
  case Nil
  then obtain f where f: "fuel = Suc (Suc f)"
    by (cases fuel; cases "fuel - 1") auto
  from Nil have x: "x \<noteq> NULL" by auto
  show ?case
    using get_next_attached_client_member[OF Nil.prems(1-4) x] x
    by (simp add: f)
next
  case (Cons y rest)
  then obtain f where f: "fuel = Suc f" and len: "Suc (length rest) < f"
    by (cases fuel) auto
  from Cons.prems have x: "x \<noteq> NULL" by auto
  let ?s1 = "s\<lparr>trace := trace s @ [EvAcquireSpinLockShared pc, EvReleaseSpinLockShared pc]\<rparr>"
  have next_one: "ebpf_extension_hook_get_next_attached_client pc x s = Some (y, ?s1)"
    using get_next_attached_client_member[OF Cons.prems(1-4) x] by simp
  have "map_option fst (enumerate_from f pc y ?s1) = Some (y # rest)"
  proof (rule Cons.IH[where pre = "pre @ [x]"])
    show "pc \<noteq> NULL" by fact
    show "providers ?s1 pc = Some prov" using Cons.prems(2) by simp
    show "attached_clients_list prov = (pre @ [x]) @ y # rest" using Cons.prems(3) by simp
    show "distinct ((pre @ [x]) @ y # rest)" using Cons.prems(4) by simp
    show "NULL \<notin> set ((pre @ [x]) @ y # rest)" using Cons.prems(5) by simp
    show "Suc (length rest) < f" by fact
  qed
  then show ?case
    using next_one x by (auto simp: f bind_eq_Some_conv)
qed

lemma enumerate_attached_clients_list:
  assumes "pc \<noteq> NULL" and "providers s pc = Some prov"
    and "distinct (attached_clients_list prov)" and "NULL \<notin> set (attached_clients_list prov)"
    and "length (attached_clients_list prov) < fuel"
  shows "map_option fst (enumerate_attached_clients fuel pc s) = Some (attached_clients_list prov)"
proof (cases "attached_clients_list prov")
  case Nil
  with assms obtain f where "fuel = Suc f"
    by (cases fuel) auto
  then show ?thesis
    using assms(1,2) Nil by (simp add: enumerate_defs)
next
  case (Cons x rest)
  let ?s1 = "s\<lparr>trace := trace s @ [EvAcquireSpinLockShared pc, EvReleaseSpinLockShared pc]\<rparr>"
  have first: "ebpf_extension_hook_get_attached_client pc s = Some (x, ?s1)"
    using assms(1,2) Cons by (simp add: enumerate_defs)
  have "map_option fst (enumerate_from fuel pc x ?s1) = Some (x # rest)"
  proof (rule enumerate_from_member[where pre = "[]" and prov = prov])
    show "pc \<noteq> NULL" by fact
    show "providers ?s1 pc = Some prov" using assms(2) by simp
    show "attached_clients_list prov = [] @ x # rest" using Cons by simp
    show "distinct ([] @ x # rest)" using assms(3) Cons by simp
    show "NULL \<notin> set ([] @ x # rest)" using assms(4) Cons by simp
    show "Suc (length rest) < fuel" using assms(5) Cons by simp
  qed
  then show ?thesis
    using first Cons by (simp add: enumerate_attached_clients_def)
qed

subsection \<open>The list along a sequence of requests\<close>

lemma attach_list_step:
  assumes ret: "ebpf_extension_hook_provider_attach_client A bail h pc reg b d 1000 1001 s =
                  Some ((status, out), s1)"
    and fresh: "pool s (pool_block A) = None" "io_work_item A \<notin> work_items s"
    and bail: "\<not> NT_SUCCESS bail" and pc: "pc \<noteq> NULL" and prov: "providers s pc = Some prov"
    and inv: "distinct (attached_clients_list prov)" "NULL \<notin> set (attached_clients_list prov)"
      "set (attached_clients_list prov) \<subseteq> dom (pool s)"
  shows "\<exists>prov1. providers s1 pc = Some prov1 \<and>
           attached_clients_list prov1 =
             attach_order_after (attached_clients_list prov)
               [case out of
                  Some hook_client \<Rightarrow>
                    if NT_SUCCESS status then Linked hook_client else Rejected status
                | None \<Rightarrow> Rejected status] \<and>
           distinct (attached_clients_list prov1) \<and> NULL \<notin> set (attached_clients_list prov1) \<and>
           set (attached_clients_list prov1) \<subseteq> dom (pool s1)"
proof -
  have notin: "pool_block A \<notin> set (attached_clients_list prov)"
    using fresh(1) inv(3) by auto
  from attach_client_cases[OF ret] pc bail prov inv fresh notin show ?thesis
    by (elim disjE conjE exE) (auto simp: fun_upd_idem)
qed

lemma detach_list_step:
  assumes ret: "ebpf_extension_hook_provider_detach_client c s = Some (status, s1)"
    and cl: "pool s c = Some cl" "provider_context cl = pc"
    and prov: "providers s pc = Some prov"
    and inv: "distinct (attached_clients_list prov)" "NULL \<notin> set (attached_clients_list prov)"
      "set (attached_clients_list prov) \<subseteq> dom (pool s)"
  shows "\<exists>prov1. providers s1 pc = Some prov1 \<and>
           attached_clients_list prov1 = attach_order_after (attached_clients_list prov) [Unlinked c] \<and>
           distinct (attached_clients_list prov1) \<and> NULL \<notin> set (attached_clients_list prov1) \<and>
           set (attached_clients_list prov1) \<subseteq> dom (pool s1)"
proof -
  from detach_returns[OF ret] cl prov have c: "c \<noteq> NULL" and pc: "provider_context cl \<noteq> NULL"
    and mem: "c \<in> set (attached_clients_list prov)"
    by auto
  have "Some (status, s1) = ebpf_extension_hook_provider_detach_client c s"
    using ret by simp
  also note detach_linked[OF c cl(1) pc prov[folded cl(2)] mem]
  finally have s1: "s1 = s\<lparr>providers := (providers s)(provider_context cl \<mapsto>
                    prov\<lparr>attached_clients_list := remove1 c (attached_clients_list prov)\<rparr>),
                 pool := (pool s)(c \<mapsto> cl\<lparr>provider_data := detach_callback prov cl\<rparr>),
                 work_queue := work_queue s @ [(detach_work_item cl, c)],
                 trace := trace s @
                   [EvDetachCallback c, EvAcquireSpinLockExclusive (provider_context cl),
                    EvRemoveEntryList c, EvReleaseSpinLockExclusive (provider_context cl),
                    EvQueueWorkItem (detach_work_item cl) c]\<rparr>"
    by simp
  have "remove1 c (attached_clients_list prov) = filter (\<lambda>x. x \<noteq> c) (attached_clients_list prov)"
    using inv(1) by (simp add: distinct_remove1_removeAll removeAll_filter_not_eq) metis
  then show ?thesis
    using s1 cl(2) inv by auto
qed

lemma attach_order_after_Cons:
  "attach_order_after clients (outcome # outcomes) =
   attach_order_after (attach_order_after clients [outcome]) outcomes"
  by (cases outcome) simp_all

lemma run_hook_ops_list:
  assumes "\<not> NT_SUCCESS bail" and "pc \<noteq> NULL"
    and "run_hook_ops bail pc ops s = Some (outcomes, s')"
    and "providers s pc = Some prov"
    and "distinct (attached_clients_list prov)" and "NULL \<notin> set (attached_clients_list prov)"
    and "set (attached_clients_list prov) \<subseteq> dom (pool s)"
  shows "\<exists>prov'. providers s' pc = Some prov' \<and>
           attached_clients_list prov' = attach_order_after (attached_clients_list prov) outcomes \<and>
           distinct (attached_clients_list prov') \<and> NULL \<notin> set (attached_clients_list prov') \<and>
           set (attached_clients_list prov') \<subseteq> dom (pool s')"
  using assms(3-)
proof (induction ops arbitrary: s prov outcomes)
  case Nil
  then show ?case by simp
next
  case (Cons op ops)
  show ?case
  proof (cases op)
    case (AttachClient r)
    from Cons.prems(1) AttachClient obtain status out s1 rest where
      fresh: "pool s (pool_block (req_answers r)) = None" "io_work_item (req_answers r) \<notin> work_items s"
      and att: "ebpf_extension_hook_provider_attach_client (req_answers r) bail
            (req_binding_handle r) pc (req_registration r) (req_binding_ctx r)
            (req_dispatch r) 1000 1001 s = Some ((status, out), s1)"
      and run: "run_hook_ops bail pc ops s1 = Some (rest, s')"
      and outs: "outcomes = (case out of
                 Some hook_client \<Rightarrow>
                   if NT_SUCCESS status then Linked hook_client else Rejected status
               | None \<Rightarrow> Rejected status) # rest"
      by (auto simp: bind_eq_Some_conv split: if_splits)
    from attach_list_step[OF att fresh assms(1,2) Cons.prems(2-5)]
    obtain prov1 where p1: "providers s1 pc = Some prov1"
      and l1: "attached_clients_list prov1 =
             attach_order_after (attached_clients_list prov)
               [case out of
                  Some hook_client \<Rightarrow>
                    if NT_SUCCESS status then Linked hook_client else Rejected status
                | None \<Rightarrow> Rejected status]"
      and i1: "distinct (attached_clients_list prov1)" "NULL \<notin> set (attached_clients_list prov1)"
        "set (attached_clients_list prov1) \<subseteq> dom (pool s1)"
      by blast
    from Cons.IH[OF run p1 i1] show ?thesis
      unfolding outs attach_order_after_Cons[of _ _ rest] l1 .
  next
    case (DetachClient c)
    from Cons.prems(1) DetachClient obtain cl status s1 rest where
      cl: "pool s c = Some cl" "provider_context cl = pc"
      and det: "ebpf_extension_hook_provider_detach_client c s = Some (status, s1)"
      and run: "run_hook_ops bail pc ops s1 = Some (rest, s')"
      and outs: "outcomes = Unlinked c # rest"
      by (auto simp: bind_eq_Some_conv deref_client_def split: if_splits)
    from detach_list_step[OF det cl Cons.prems(2-5)]
    obtain prov1 where p1: "providers s1 pc = Some prov1"
      and l1: "attached_clients_list prov1 =
             attach_order_after (attached_clients_list prov) [Unlinked c]"
      and i1: "distinct (attached_clients_list prov1)" "NULL \<notin> set (attached_clients_list prov1)"
        "set (attached_clients_list prov1) \<subseteq> dom (pool s1)"
      by blast
    from Cons.IH[OF run p1 i1] show ?thesis
      unfolding outs attach_order_after_Cons[of _ _ rest] l1 .
  qed
qed

text \<open>C8. Along every sequence of attach and detach requests on one provider, starting
  from a list of distinct live clients, the enumeration with
  \<open>ebpf_extension_hook_get_attached_client\<close> and
  \<open>ebpf_extension_hook_get_next_attached_client\<close> yields the clients in attach order:
  each successful attach has appended its client at the tail, and each detach has taken
  its client out and kept the order of the others.\<close>

theorem attached_clients_in_attach_order:
  assumes "\<not> NT_SUCCESS bail" and "pc \<noteq> NULL"
    and "providers s pc = Some prov"
    and "distinct (attached_clients_list prov)" and "NULL \<notin> set (attached_clients_list prov)"
    and "set (attached_clients_list prov) \<subseteq> dom (pool s)"
    and "run_hook_ops bail pc ops s = Some (outcomes, s')"
    and "length (attach_order_after (attached_clients_list prov) outcomes) < fuel"
  shows "map_option fst (enumerate_attached_clients fuel pc s') =
         Some (attach_order_after (attached_clients_list prov) outcomes)"
proof -
  from run_hook_ops_list[OF assms(1,2,7,3-6)]
  obtain prov' where p: "providers s' pc = Some prov'"
    and l: "attached_clients_list prov' = attach_order_after (attached_clients_list prov) outcomes"
    and i: "distinct (attached_clients_list prov')" "NULL \<notin> set (attached_clients_list prov')"
    by blast
  from enumerate_attached_clients_list[OF assms(2) p i] assms(8) show ?thesis
    by (simp add: l)
qed

text \<open>Witness: the example sequence leaves the first and the fourth client, in that
  order.\<close>

lemma example_run:
  "\<exists>s'. run_hook_ops STATUS_INSUFFICIENT_RESOURCES 1 example_ops
          (example_state (checking_callback 4 [0, 0, 0, 0]) [] Map.empty) =
        Some ([Linked 20, Linked 30, Rejected STATUS_ACCESS_DENIED, Linked 50, Unlinked 30], s')"
  by (simp add: example_ops_def example_request_def example_defs attach_defs detach_defs
      check_defs Let_def)

theorem attached_clients_in_attach_order_witness:
  "map_option fst
     (run_hook_ops STATUS_INSUFFICIENT_RESOURCES 1 example_ops
        (example_state (checking_callback 4 [0, 0, 0, 0]) [] Map.empty)) =
     Some [Linked 20, Linked 30, Rejected STATUS_ACCESS_DENIED, Linked 50, Unlinked 30] \<and>
   run_hook_ops STATUS_INSUFFICIENT_RESOURCES 1 example_ops
        (example_state (checking_callback 4 [0, 0, 0, 0]) [] Map.empty) \<bind>
     (\<lambda>r. map_option fst (enumerate_attached_clients 3 1 (snd r))) = Some [20, 50]"
proof -
  from example_run obtain s' where
    e: "run_hook_ops STATUS_INSUFFICIENT_RESOURCES 1 example_ops
          (example_state (checking_callback 4 [0, 0, 0, 0]) [] Map.empty) =
        Some ([Linked 20, Linked 30, Rejected STATUS_ACCESS_DENIED, Linked 50, Unlinked 30], s')"
    by blast
  from attached_clients_in_attach_order[OF _ _ _ _ _ _ e,
      of "example_provider (checking_callback 4 [0, 0, 0, 0]) []" 3]
  have "map_option fst (enumerate_attached_clients 3 1 s') = Some [20, 50]"
    by (simp add: example_state_def example_provider_def)
  with e show ?thesis
    by simp
qed

end
